theory Spec2Isabelle
  imports Main "HOL-Library.Word"
begin

section \<open>Configuration and hardware backends (main.cpp, lines 28-107)\<close>

text \<open>
  \<^verbatim>\<open>struct ReplayConfig\<close> with the defaults of its constructor. The C++ \<^verbatim>\<open>int\<close>
  fields hold what \<^verbatim>\<open>std::stoi\<close> returned, a value of the 32-bit range, and are
  never used in arithmetic that could overflow an \<^verbatim>\<open>int\<close>; they are modelled as
  \<^typ>\<open>int\<close>.
\<close>

record ReplayConfig =
  input_rtsp_url :: string
  buffer_seconds :: int
  output_rtsp_port :: int
  use_hardware_accel :: bool
  gpu_id :: int
  output_mount_point :: string

definition default_config :: ReplayConfig where
  "default_config =
     \<lparr> input_rtsp_url = [],
       buffer_seconds = 60,
       output_rtsp_port = 8554,
       use_hardware_accel = True,
       gpu_id = 0,
       output_mount_point = ''/replay'' \<rparr>"

datatype HWAccelType = HW_ACCEL_NONE | HW_ACCEL_NVIDIA | HW_ACCEL_VAAPI | HW_ACCEL_MSDK

text \<open>
  The registry of the media engine is the set of feature names it knows:
  \<^verbatim>\<open>gst_registry_lookup_feature(registry, name)\<close> is non-null exactly for the
  members of that set.
\<close>

definition gst_registry_lookup_feature :: "string set \<Rightarrow> string \<Rightarrow> bool" where
  "gst_registry_lookup_feature registry name = (name \<in> registry)"

definition detect_hardware_accel :: "string set \<Rightarrow> HWAccelType" where
  "detect_hardware_accel registry =
     (if gst_registry_lookup_feature registry ''nvh264dec'' then HW_ACCEL_NVIDIA
      else if gst_registry_lookup_feature registry ''vaapih264dec'' then HW_ACCEL_VAAPI
      else if gst_registry_lookup_feature registry ''msdkh264dec'' then HW_ACCEL_MSDK
      else HW_ACCEL_NONE)"

fun get_decoder_element :: "HWAccelType \<Rightarrow> string" where
  "get_decoder_element HW_ACCEL_NVIDIA = ''nvh264dec''"
| "get_decoder_element HW_ACCEL_VAAPI = ''vaapih264dec''"
| "get_decoder_element HW_ACCEL_MSDK = ''msdkh264dec''"
| "get_decoder_element HW_ACCEL_NONE = ''avdec_h264''"

fun get_encoder_element :: "HWAccelType \<Rightarrow> string" where
  "get_encoder_element HW_ACCEL_NVIDIA = ''nvh264enc''"
| "get_encoder_element HW_ACCEL_VAAPI = ''vaapih264enc''"
| "get_encoder_element HW_ACCEL_MSDK = ''msdkh264enc''"
| "get_encoder_element HW_ACCEL_NONE = ''x264enc''"

text \<open>
  The backend \<^verbatim>\<open>main\<close> works with (lines 456-461): the detected one, or
  \<^const>\<open>HW_ACCEL_NONE\<close> when \<^verbatim>\<open>--no-hw\<close> cleared \<^const>\<open>use_hardware_accel\<close>.
\<close>

definition main_hw_type :: "ReplayConfig \<Rightarrow> string set \<Rightarrow> HWAccelType" where
  "main_hw_type config registry =
     (if use_hardware_accel config then detect_hardware_accel registry else HW_ACCEL_NONE)"

text \<open>The codec pair of a backend: what the two element selectors return for it.\<close>

definition codec_pair :: "HWAccelType \<Rightarrow> string \<times> string" where
  "codec_pair hw_type = (get_decoder_element hw_type, get_encoder_element hw_type)"

subsection \<open>The words of the specification about selection\<close>

text \<open>
  A backend counts as present in a capability report when the probe's query for it
  succeeds: the lookup of its decoder feature. Software is the bottom of the order and
  is not probed.
\<close>

definition backend_present :: "string set \<Rightarrow> HWAccelType \<Rightarrow> bool" where
  "backend_present registry b =
     (b = HW_ACCEL_NONE \<or> gst_registry_lookup_feature registry (get_decoder_element b))"

text \<open>The fixed priority: NVIDIA, VAAPI, integrated MSDK, software.\<close>

fun priority :: "HWAccelType \<Rightarrow> nat" where
  "priority HW_ACCEL_NVIDIA = 0"
| "priority HW_ACCEL_VAAPI = 1"
| "priority HW_ACCEL_MSDK = 2"
| "priority HW_ACCEL_NONE = 3"

definition priority_order :: "HWAccelType list" where
  "priority_order = [HW_ACCEL_NVIDIA, HW_ACCEL_VAAPI, HW_ACCEL_MSDK, HW_ACCEL_NONE]"

text \<open>
  The specification's selection, in its own words: the first backend of the priority
  order that is present (software when the list is exhausted).
\<close>

definition spec_first_match :: "string set \<Rightarrow> HWAccelType" where
  "spec_first_match registry =
     (case find (backend_present registry) priority_order of
        None \<Rightarrow> HW_ACCEL_NONE
      | Some b \<Rightarrow> b)"

section \<open>Console output\<close>

text \<open>
  Every line the program prints (\<^verbatim>\<open>g_print\<close>, \<^verbatim>\<open>g_printerr\<close>, \<^verbatim>\<open>std::cout\<close>),
  as one constructor per format string, carrying the values the format string is
  filled with. The output of a run is the list of these lines in printing order.
\<close>

datatype GstState =
  GST_STATE_VOID_PENDING | GST_STATE_NULL | GST_STATE_READY | GST_STATE_PAUSED | GST_STATE_PLAYING

datatype GstPadLinkReturn =
  GST_PAD_LINK_OK | GST_PAD_LINK_WRONG_HIERARCHY | GST_PAD_LINK_WAS_LINKED
| GST_PAD_LINK_WRONG_DIRECTION | GST_PAD_LINK_NOFORMAT | GST_PAD_LINK_NOSCHED
| GST_PAD_LINK_REFUSED

datatype log_line =
  Msg_initializing
| Msg_help string
| Msg_unknown_argument string
| Msg_input_required
| Msg_checking_plugins
| Msg_plugin_found string
| Msg_plugin_missing string
| Msg_missing_required_plugins
| Msg_hw_detected HWAccelType
| Msg_hw_disabled
| Msg_configuration string int int string bool
| Msg_pipeline_new_failed
| Msg_elements_failed
| Msg_link_failed
| Msg_input_pipeline_created
| Msg_create_pipeline_failed
| Msg_server_new_failed
| Msg_server_mounted int string
| Msg_create_server_failed
| Msg_attach_failed
| Msg_starting
| Msg_set_playing_failed
| Msg_running int string
| Msg_signal int
| Msg_error string string "string option"
| Msg_warning string string "string option"
| Msg_eos
| Msg_state_changed GstState GstState
| Msg_buffering int
| Msg_new_pad string
| Msg_pad_link_failed GstPadLinkReturn
| Msg_pad_linked
| Msg_cleaning_up
| Msg_shutdown_complete

section \<open>Command line (main.cpp, lines 359-409)\<close>

text \<open>
  \<^verbatim>\<open>std::stoi\<close> of the C++ standard library, base 10: leading white space is
  skipped, an optional sign is read, then the longest run of decimal digits; what follows
  the digits is ignored. It throws \<^verbatim>\<open>std::invalid_argument\<close> when there is no digit
  and \<^verbatim>\<open>std::out_of_range\<close> when the value does not fit a 32-bit \<^verbatim>\<open>int\<close>.
\<close>

datatype stoi_error = invalid_argument | out_of_range

definition isspace :: "char \<Rightarrow> bool" where
  "isspace c = (c \<in> set [CHR '' '', CHR 0x09, CHR 0x0A, CHR 0x0B, CHR 0x0C, CHR 0x0D])"

definition isdigit :: "char \<Rightarrow> bool" where
  "isdigit c = (c \<in> set ''0123456789'')"

definition digits_value :: "string \<Rightarrow> int" where
  "digits_value ds = foldl (\<lambda>acc c. 10 * acc + (of_char c - 48)) 0 ds"

definition stoi :: "string \<Rightarrow> stoi_error + int" where
  "stoi str =
     (let s1 = dropWhile isspace str;
          neg = (s1 \<noteq> [] \<and> hd s1 = CHR ''-'');
          s2 = (if s1 \<noteq> [] \<and> (hd s1 = CHR ''-'' \<or> hd s1 = CHR ''+'') then tl s1 else s1);
          ds = takeWhile isdigit s2;
          v = (if neg then - digits_value ds else digits_value ds)
      in if ds = [] then Inl invalid_argument
         else if v < - 2147483648 \<or> 2147483647 < v then Inl out_of_range
         else Inr v)"

text \<open>
  \<^verbatim>\<open>parse_arguments\<close>: the loop over \<^verbatim>\<open>argv[1..]\<close>, as a recursion on the
  arguments not yet read. \<^verbatim>\<open>i + 1 < argc\<close> says that an argument follows the
  current one (\<open>rest \<noteq> []\<close>), and \<^verbatim>\<open>argv[++i]\<close> reads it and skips it. The
  result is \<open>Inl\<close> the exception that \<^verbatim>\<open>std::stoi\<close> threw, or \<open>Inr\<close> the
  returned flag, the configuration as the loop left it, and the lines printed.
\<close>

fun parse_loop ::
  "string \<Rightarrow> string list \<Rightarrow> ReplayConfig \<Rightarrow> stoi_error + (bool \<times> ReplayConfig \<times> log_line list)"
where
  "parse_loop argv0 [] config =
     (if input_rtsp_url config = [] then Inr (False, config, [Msg_input_required])
      else Inr (True, config, []))"
| "parse_loop argv0 (arg # rest) config =
     (if (arg = ''-i'' \<or> arg = ''--input'') \<and> rest \<noteq> [] then
        parse_loop argv0 (tl rest) (config\<lparr>input_rtsp_url := hd rest\<rparr>)
      else if (arg = ''-b'' \<or> arg = ''--buffer'') \<and> rest \<noteq> [] then
        (case stoi (hd rest) of
           Inl ex \<Rightarrow> Inl ex
         | Inr n \<Rightarrow> parse_loop argv0 (tl rest) (config\<lparr>buffer_seconds := n\<rparr>))
      else if (arg = ''-p'' \<or> arg = ''--port'') \<and> rest \<noteq> [] then
        (case stoi (hd rest) of
           Inl ex \<Rightarrow> Inl ex
         | Inr n \<Rightarrow> parse_loop argv0 (tl rest) (config\<lparr>output_rtsp_port := n\<rparr>))
      else if arg = ''--no-hw'' then
        parse_loop argv0 rest (config\<lparr>use_hardware_accel := False\<rparr>)
      else if arg = ''--gpu'' \<and> rest \<noteq> [] then
        (case stoi (hd rest) of
           Inl ex \<Rightarrow> Inl ex
         | Inr n \<Rightarrow> parse_loop argv0 (tl rest) (config\<lparr>gpu_id := n\<rparr>))
      else if (arg = ''-m'' \<or> arg = ''--mount'') \<and> rest \<noteq> [] then
        parse_loop argv0 (tl rest) (config\<lparr>output_mount_point := hd rest\<rparr>)
      else if arg = ''-h'' \<or> arg = ''--help'' then
        Inr (False, config, [Msg_help argv0])
      else Inr (False, config, [Msg_unknown_argument arg]))"

definition parse_arguments ::
  "string \<Rightarrow> string list \<Rightarrow> ReplayConfig \<Rightarrow> stoi_error + (bool \<times> ReplayConfig \<times> log_line list)"
where
  "parse_arguments argv0 args config = parse_loop argv0 args config"

section \<open>Required plugins (main.cpp, lines 411-434)\<close>

definition required_plugins :: "string list" where
  "required_plugins =
     [''rtsp'', ''rtp'', ''rtpmanager'', ''coreelements'', ''playback'', ''videoparsersbad'',
      ''libav'']"

fun check_plugins_loop ::
  "string set \<Rightarrow> string list \<Rightarrow> bool \<Rightarrow> log_line list \<Rightarrow> bool \<times> log_line list"
where
  "check_plugins_loop plugins [] all_found out = (all_found, out)"
| "check_plugins_loop plugins (p # ps) all_found out =
     (if p \<in> plugins then check_plugins_loop plugins ps all_found (out @ [Msg_plugin_found p])
      else check_plugins_loop plugins ps False (out @ [Msg_plugin_missing p]))"

definition check_required_plugins :: "string set \<Rightarrow> bool \<times> log_line list" where
  "check_required_plugins plugins =
     check_plugins_loop plugins required_plugins True [Msg_checking_plugins]"

section \<open>The environment of a run\<close>

text \<open>
  What the media engine and the serving library answer is an input of the model: which
  features and plugins the registry holds, which element factories can instantiate an
  element, whether \<^verbatim>\<open>gst_pipeline_new\<close>, \<^verbatim>\<open>gst_element_link_many\<close> and
  \<^verbatim>\<open>gst_rtsp_server_new\<close> succeed, the source id \<^verbatim>\<open>gst_rtsp_server_attach\<close>
  returns (0 on failure), and the result of the first
  \<^verbatim>\<open>gst_element_set_state(pipeline, GST_STATE_PLAYING)\<close>.
\<close>

datatype GstStateChangeReturn =
  GST_STATE_CHANGE_FAILURE | GST_STATE_CHANGE_SUCCESS | GST_STATE_CHANGE_ASYNC
| GST_STATE_CHANGE_NO_PREROLL

record env =
  features :: "string set"
  plugins :: "string set"
  pipeline_new_ok :: bool
  factories :: "string set"
  link_many_ok :: bool
  server_new_ok :: bool
  attach_id :: nat
  set_playing_ret :: GstStateChangeReturn

section \<open>Object ownership\<close>

text \<open>
  The objects created by the program and still alive, each with the bin that owns it (if
  any). A new element or pipeline has one reference, held by its creator;
  \<^verbatim>\<open>gst_bin_add_many\<close> hands the elements to the bin, which then holds their only
  reference; \<^verbatim>\<open>gst_object_unref\<close> on the last reference destroys the object, and a bin
  that is destroyed releases its children.
\<close>

type_synonym heap = "(string \<times> string option) list"

definition gst_object_new :: "string \<Rightarrow> heap \<Rightarrow> heap" where
  "gst_object_new name h = h @ [(name, None)]"

definition gst_element_factory_make ::
  "env \<Rightarrow> string \<Rightarrow> string \<Rightarrow> heap \<Rightarrow> string option \<times> heap"
where
  "gst_element_factory_make e factory name h =
     (if factory \<in> factories e then (Some name, gst_object_new name h) else (None, h))"

definition gst_bin_add_many :: "string \<Rightarrow> string list \<Rightarrow> heap \<Rightarrow> heap" where
  "gst_bin_add_many bin names h =
     map (\<lambda>(n, owner). if n \<in> set names then (n, Some bin) else (n, owner)) h"

definition gst_object_unref :: "string \<Rightarrow> heap \<Rightarrow> heap" where
  "gst_object_unref name h = filter (\<lambda>(n, owner). n \<noteq> name \<and> owner \<noteq> Some name) h"

text \<open>\<^verbatim>\<open>if (x) gst_object_unref(x);\<close>\<close>

definition unref_if_made :: "string option \<Rightarrow> heap \<Rightarrow> heap" where
  "unref_if_made x h = (case x of None \<Rightarrow> h | Some name \<Rightarrow> gst_object_unref name h)"

section \<open>Pipeline builder (main.cpp, lines 221-287)\<close>

text \<open>
  The handle of a built ingest pipeline: the properties set on its elements and the
  element the \<^verbatim>\<open>pad-added\<close> signal of the source is connected to.
  \<^verbatim>\<open>max-size-time\<close> is \<^verbatim>\<open>(guint64)config.buffer_seconds * GST_SECOND\<close>, a product
  of unsigned 64-bit integers.
\<close>

record input_pipeline =
  src_location :: string
  src_latency :: int
  src_protocols :: int
  src_buffer_mode :: int
  queue_max_size_time :: "64 word"
  queue_ring_buffer_max_size :: "64 word"
  queue_use_buffering :: bool
  queue_temp_template :: "string option"
  sink_location :: string
  pad_added_target :: string

definition GST_SECOND :: "64 word" where
  "GST_SECOND = 1000000000"

definition create_input_pipeline ::
  "env \<Rightarrow> ReplayConfig \<Rightarrow> HWAccelType \<Rightarrow> input_pipeline option \<times> heap \<times> log_line list"
where
  "create_input_pipeline e config hw_type =
     (if \<not> pipeline_new_ok e then (None, [], [Msg_pipeline_new_failed])
      else
        let h0 = gst_object_new ''input-pipeline'' [];
            (rtspsrc, h1) = gst_element_factory_make e ''rtspsrc'' ''source'' h0;
            (depay, h2) = gst_element_factory_make e ''rtph264depay'' ''depay'' h1;
            (parse, h3) = gst_element_factory_make e ''h264parse'' ''parse'' h2;
            (queue_buffer, h4) = gst_element_factory_make e ''queue2'' ''ring-buffer'' h3;
            (filesink, h5) = gst_element_factory_make e ''filesink'' ''output'' h4
        in
          if rtspsrc = None \<or> depay = None \<or> parse = None \<or> queue_buffer = None
             \<or> filesink = None
          then
            (None,
             gst_object_unref ''input-pipeline''
               (unref_if_made filesink
                 (unref_if_made queue_buffer
                   (unref_if_made parse (unref_if_made depay (unref_if_made rtspsrc h5))))),
             [Msg_elements_failed])
          else
            let h6 = gst_bin_add_many ''input-pipeline''
                       [''source'', ''depay'', ''parse'', ''ring-buffer'', ''output''] h5
            in
              if \<not> link_many_ok e
              then (None, gst_object_unref ''input-pipeline'' h6, [Msg_link_failed])
              else
                (Some \<lparr> src_location = input_rtsp_url config,
                        src_latency = 2000,
                        src_protocols = 4,
                        src_buffer_mode = 1,
                        queue_max_size_time = word_of_int (buffer_seconds config) * GST_SECOND,
                        queue_ring_buffer_max_size = 1000000000,
                        queue_use_buffering = True,
                        queue_temp_template = None,
                        sink_location = ''/tmp/replay-buffer.h264'',
                        pad_added_target = ''depay'' \<rparr>,
                 h6, [Msg_input_pipeline_created]))"

section \<open>Replay server (main.cpp, lines 289-357)\<close>

text \<open>\<^verbatim>\<open>g_strdup_printf("%d", n)\<close>: the decimal digits of \<open>n\<close>, with a minus sign.\<close>

fun dec_digits :: "nat \<Rightarrow> string" where
  "dec_digits n =
     (if n < 10 then [char_of (48 + n)] else dec_digits (n div 10) @ [char_of (48 + n mod 10)])"

definition printf_d :: "int \<Rightarrow> string" where
  "printf_d n = (if n < 0 then CHR ''-'' # dec_digits (nat (- n)) else dec_digits (nat n))"

text \<open>
  The launch description the factory is given (lines 323-338): one string literal for
  NVIDIA, one for VAAPI and one for every other backend.
\<close>

definition launch_description :: "HWAccelType \<Rightarrow> string" where
  "launch_description hw_type =
     (if hw_type = HW_ACCEL_NVIDIA then
        ''( filesrc location=/tmp/replay-buffer.h264 ! '' @
        ''h264parse ! nvh264dec ! nvh264enc bitrate=4000 ! '' @
        ''h264parse ! rtph264pay name=pay0 pt=96 config-interval=1 )''
      else if hw_type = HW_ACCEL_VAAPI then
        ''( filesrc location=/tmp/replay-buffer.h264 ! '' @
        ''h264parse ! vaapih264dec ! vaapih264enc bitrate=4000 ! '' @
        ''h264parse ! rtph264pay name=pay0 pt=96 config-interval=1 )''
      else
        ''( filesrc location=/tmp/replay-buffer.h264 ! '' @
        ''h264parse ! avdec_h264 ! x264enc bitrate=4000 tune=zerolatency ! '' @
        ''h264parse ! rtph264pay name=pay0 pt=96 config-interval=1 )'')"

text \<open>
  The configured server: the \<^verbatim>\<open>service\<close> property, the mount point and the factory
  mounted there. \<^verbatim>\<open>GST_RTSP_LOWER_TRANS_TCP\<close> is the bit \<open>1 << 2\<close>.
\<close>

record rtsp_server =
  service :: string
  mount_point :: string
  launch :: string
  shared :: bool
  enable_rtcp :: bool
  lower_transports :: int
  media_configure_connected :: bool

definition create_rtsp_server ::
  "env \<Rightarrow> ReplayConfig \<Rightarrow> HWAccelType \<Rightarrow> rtsp_server option \<times> log_line list"
where
  "create_rtsp_server e config hw_type =
     (if \<not> server_new_ok e then (None, [Msg_server_new_failed])
      else
        let port_str = printf_d (output_rtsp_port config);
            decoder = get_decoder_element hw_type;
            encoder = get_encoder_element hw_type;
            pipeline_str = launch_description hw_type
        in
          (Some \<lparr> service = port_str,
                  mount_point = output_mount_point config,
                  launch = pipeline_str,
                  shared = True,
                  enable_rtcp = True,
                  lower_transports = 4,
                  media_configure_connected = True \<rparr>,
           [Msg_server_mounted (output_rtsp_port config) (output_mount_point config)]))"

text \<open>
  Reading a launch description: its words, separated by blanks. The elements of the
  playback graph are among them.
\<close>

fun split_words :: "string \<Rightarrow> string \<Rightarrow> string list" where
  "split_words w [] = (if w = [] then [] else [w])"
| "split_words w (c # cs) =
     (if c = CHR '' '' then (if w = [] then split_words [] cs else w # split_words [] cs)
      else split_words (w @ [c]) cs)"

definition launch_words :: "string \<Rightarrow> string list" where
  "launch_words s = split_words [] s"

section \<open>The running pipeline: notifications and announced pads\<close>

text \<open>
  The state the callbacks read and write while the pipeline runs: the state last
  requested for the pipeline with \<^verbatim>\<open>gst_element_set_state\<close>, whether
  \<^verbatim>\<open>main_loop\<close> exists and whether \<^verbatim>\<open>g_main_loop_quit\<close> was called on it, the
  flag \<^verbatim>\<open>shutdown_requested\<close>, the peer of the depayloader's sink pad (the entry
  point of the static subgraph), every call of \<^verbatim>\<open>gst_pad_link\<close> with its result, and
  the lines printed.
\<close>

record run_state =
  requested_state :: GstState
  main_loop_exists :: bool
  loop_quit :: bool
  shutdown_requested :: bool
  sink_peer :: "string option"
  link_calls :: "(string \<times> GstPadLinkReturn) list"
  out :: "log_line list"

text \<open>
  A bus message, with what \<^verbatim>\<open>bus_callback\<close> reads of it: the name of the source
  element, the error message and the optional debugging text; whether a state change
  comes from the pipeline itself, and its old, new and pending states; the buffering
  percentage; the structure name of an element message.
\<close>

datatype GstMessage =
  GST_MESSAGE_ERROR string string "string option"
| GST_MESSAGE_WARNING string string "string option"
| GST_MESSAGE_EOS
| GST_MESSAGE_STATE_CHANGED bool GstState GstState GstState
| GST_MESSAGE_BUFFERING int
| GST_MESSAGE_ELEMENT string
| GST_MESSAGE_OTHER

definition g_main_loop_quit :: "run_state \<Rightarrow> run_state" where
  "g_main_loop_quit s = s\<lparr>loop_quit := True\<rparr>"

definition gst_element_set_state :: "GstState \<Rightarrow> run_state \<Rightarrow> run_state" where
  "gst_element_set_state st s = s\<lparr>requested_state := st\<rparr>"

definition print :: "log_line \<Rightarrow> run_state \<Rightarrow> run_state" where
  "print l s = s\<lparr>out := out s @ [l]\<rparr>"

text \<open>\<^verbatim>\<open>bus_callback\<close> (lines 118-181); it always returns \<^verbatim>\<open>TRUE\<close>.\<close>

fun bus_callback :: "GstMessage \<Rightarrow> run_state \<Rightarrow> run_state" where
  "bus_callback (GST_MESSAGE_ERROR src msg debug_info) s =
     g_main_loop_quit (print (Msg_error src msg debug_info) s)"
| "bus_callback (GST_MESSAGE_WARNING src msg debug_info) s =
     print (Msg_warning src msg debug_info) s"
| "bus_callback GST_MESSAGE_EOS s = g_main_loop_quit (print Msg_eos s)"
| "bus_callback (GST_MESSAGE_STATE_CHANGED from_pipeline old_state new_state pending_state) s =
     (if from_pipeline then print (Msg_state_changed old_state new_state) s else s)"
| "bus_callback (GST_MESSAGE_BUFFERING percent) s =
     (if percent < 100 then gst_element_set_state GST_STATE_PAUSED (print (Msg_buffering percent) s)
      else gst_element_set_state GST_STATE_PLAYING (print (Msg_buffering percent) s))"
| "bus_callback (GST_MESSAGE_ELEMENT name) s = s"
| "bus_callback GST_MESSAGE_OTHER s = s"

text \<open>\<^verbatim>\<open>signal_handler\<close> (lines 109-116).\<close>

definition signal_handler :: "int \<Rightarrow> run_state \<Rightarrow> run_state" where
  "signal_handler signum s =
     (let s1 = (print (Msg_signal signum) s)\<lparr>shutdown_requested := True\<rparr>
      in if main_loop_exists s1 then g_main_loop_quit s1 else s1)"

text \<open>
  An announced pad of the source, with the two fields \<^verbatim>\<open>on_pad_added\<close> reads from
  the first structure of its caps; \<^verbatim>\<open>gst_structure_get_string\<close> returns
  \<^verbatim>\<open>NULL\<close> (\<open>None\<close>) for a field that is absent.
\<close>

record GstPad =
  pad_name :: string
  caps_media :: "string option"
  caps_encoding_name :: "string option"

definition GST_PAD_LINK_FAILED :: "GstPadLinkReturn \<Rightarrow> bool" where
  "GST_PAD_LINK_FAILED ret = (ret \<noteq> GST_PAD_LINK_OK)"

definition gst_pad_is_linked :: "string option \<Rightarrow> bool" where
  "gst_pad_is_linked peer = (peer \<noteq> None)"

text \<open>
  \<^verbatim>\<open>gst_pad_link(pad, sinkpad)\<close>: the engine's answer \<open>ret\<close> comes with the
  announcement; the call is recorded, and on \<^const>\<open>GST_PAD_LINK_OK\<close> the announced pad
  becomes the peer of the sink pad.
\<close>

definition gst_pad_link :: "GstPad \<Rightarrow> GstPadLinkReturn \<Rightarrow> run_state \<Rightarrow> run_state" where
  "gst_pad_link pad ret s =
     (let s1 = s\<lparr>link_calls := link_calls s @ [(pad_name pad, ret)]\<rparr>
      in if ret = GST_PAD_LINK_OK then s1\<lparr>sink_peer := Some (pad_name pad)\<rparr> else s1)"

text \<open>\<^verbatim>\<open>on_pad_added\<close> (lines 183-219).\<close>

definition on_pad_added :: "GstPad \<Rightarrow> GstPadLinkReturn \<Rightarrow> run_state \<Rightarrow> run_state" where
  "on_pad_added pad ret s =
     (let s1 = print (Msg_new_pad (pad_name pad)) s;
          media = caps_media pad;
          encoding = caps_encoding_name pad
      in
        if media \<noteq> None \<and> encoding \<noteq> None \<and> media = Some ''video'' \<and> encoding = Some ''H264''
        then
          if \<not> gst_pad_is_linked (sink_peer s1) then
            let s2 = gst_pad_link pad ret s1
            in if GST_PAD_LINK_FAILED ret then print (Msg_pad_link_failed ret) s2
               else print Msg_pad_linked s2
          else s1
        else s1)"

text \<open>
  What happens while \<^verbatim>\<open>g_main_loop_run\<close> runs, in order of occurrence: a bus message
  dispatched to \<^verbatim>\<open>bus_callback\<close>, a signal, or a pad announced by the source.
\<close>

datatype event = Bus GstMessage | Signal int | PadAdded GstPad GstPadLinkReturn

fun handle_event :: "event \<Rightarrow> run_state \<Rightarrow> run_state" where
  "handle_event (Bus m) s = bus_callback m s"
| "handle_event (Signal signum) s = signal_handler signum s"
| "handle_event (PadAdded pad ret) s = on_pad_added pad ret s"

text \<open>
  The loop handles events until one of them has called \<^verbatim>\<open>g_main_loop_quit\<close>. When
  the events end before that, the loop keeps waiting.
\<close>

fun dispatch_events :: "event list \<Rightarrow> run_state \<Rightarrow> run_state" where
  "dispatch_events [] s = s"
| "dispatch_events (ev # evs) s =
     (let s1 = handle_event ev s in if loop_quit s1 then s1 else dispatch_events evs s1)"

text \<open>
  \<^verbatim>\<open>g_main_loop_run\<close>: \<open>Some\<close> the state at its return, \<open>None\<close> when it never
  returns.
\<close>

definition g_main_loop_run :: "event list \<Rightarrow> run_state \<Rightarrow> run_state option" where
  "g_main_loop_run evs s =
     (let s1 = dispatch_events evs s in if loop_quit s1 then Some s1 else None)"

section \<open>The program (main.cpp, lines 436-532)\<close>

text \<open>
  How a run ends: with an exit code, by the uncaught exception of \<^verbatim>\<open>std::stoi\<close>
  (the process is aborted), or never.
\<close>

datatype status = Exited int | Uncaught stoi_error | Never_returns

record outcome =
  exit_status :: status
  printed :: "log_line list"
  live :: heap
  built_pipeline :: "input_pipeline option"
  built_server :: "rtsp_server option"
  final_state :: "run_state option"

definition failed :: "log_line list \<Rightarrow> heap \<Rightarrow> outcome" where
  "failed lines h =
     \<lparr> exit_status = Exited 1, printed = lines, live = h, built_pipeline = None,
       built_server = None, final_state = None \<rparr>"

text \<open>
  What \<^verbatim>\<open>main\<close> still uses when it reaches the main loop (line 520): the
  pipeline, the server, the objects alive and the lines printed so far.
\<close>

record started =
  st_pipeline :: input_pipeline
  st_server :: rtsp_server
  st_live :: heap
  st_output :: "log_line list"

text \<open>
  Lines 448-518: \<^verbatim>\<open>main\<close> from the plugin check up to the main loop, with the
  configuration the arguments gave and the lines printed so far. \<open>Inl\<close> is a run that
  ended before the loop.
\<close>

definition main_after_parse :: "env \<Rightarrow> ReplayConfig \<Rightarrow> log_line list \<Rightarrow> outcome + started" where
  "main_after_parse e config out1 =
     (let (all_found, out2) = check_required_plugins (plugins e) in
      if \<not> all_found
      then Inl (failed (out1 @ out2 @ [Msg_missing_required_plugins]) [])
      else
        let hw_type = main_hw_type config (features e);
            out3 = out1 @ out2
              @ [if use_hardware_accel config then Msg_hw_detected hw_type
                 else Msg_hw_disabled]
              @ [Msg_configuration (input_rtsp_url config) (buffer_seconds config)
                   (output_rtsp_port config) (output_mount_point config)
                   (hw_type \<noteq> HW_ACCEL_NONE)];
            (pipeline, h1, out4) = create_input_pipeline e config hw_type
        in
          case pipeline of
            None \<Rightarrow> Inl (failed (out3 @ out4 @ [Msg_create_pipeline_failed]) h1)
          | Some p \<Rightarrow>
              let (rtsp_server, out5) = create_rtsp_server e config hw_type in
              case rtsp_server of
                None \<Rightarrow>
                  Inl (failed (out3 @ out4 @ out5 @ [Msg_create_server_failed])
                         (gst_object_unref ''input-pipeline'' h1))
              | Some srv \<Rightarrow>
                  let h2 = gst_object_new ''rtsp-server'' h1 in
                  if attach_id e = 0
                  then
                    Inl (failed (out3 @ out4 @ out5 @ [Msg_attach_failed])
                           (gst_object_unref ''input-pipeline''
                              (gst_object_unref ''rtsp-server'' h2)))
                  else if set_playing_ret e = GST_STATE_CHANGE_FAILURE
                  then
                    Inl (failed (out3 @ out4 @ out5 @ [Msg_starting, Msg_set_playing_failed])
                           (gst_object_unref ''input-pipeline''
                              (gst_object_unref ''rtsp-server'' h2)))
                  else
                    Inr \<lparr> st_pipeline = p, st_server = srv, st_live = h2,
                          st_output = out3 @ out4 @ out5
                            @ [Msg_starting,
                               Msg_running (output_rtsp_port config)
                                 (output_mount_point config)] \<rparr>)"

text \<open>
  Lines 436-446, then the rest: the arguments are those left by \<^verbatim>\<open>gst_init\<close>. An
  exception of \<^verbatim>\<open>std::stoi\<close> is not caught anywhere and ends the process.
\<close>

definition main_startup :: "env \<Rightarrow> string \<Rightarrow> string list \<Rightarrow> outcome + started" where
  "main_startup e argv0 args =
     (case parse_arguments argv0 args default_config of
        Inl ex \<Rightarrow>
          Inl \<lparr> exit_status = Uncaught ex, printed = [Msg_initializing], live = [],
                built_pipeline = None, built_server = None, final_state = None \<rparr>
      | Inr (parsed, config, out1) \<Rightarrow>
          if \<not> parsed then Inl (failed ([Msg_initializing] @ out1) [])
          else main_after_parse e config ([Msg_initializing] @ out1))"

text \<open>The state in which the loop starts: the pipeline was asked to play.\<close>

definition loop_entry :: "started \<Rightarrow> run_state" where
  "loop_entry st =
     \<lparr> requested_state = GST_STATE_PLAYING, main_loop_exists = True, loop_quit = False,
       shutdown_requested = False, sink_peer = None, link_calls = [],
       out = st_output st \<rparr>"

text \<open>Lines 520-531: the main loop and, once it has returned, the clean-up.\<close>

definition main_run :: "started \<Rightarrow> event list \<Rightarrow> outcome" where
  "main_run st events =
     (case g_main_loop_run events (loop_entry st) of
        None \<Rightarrow>
          \<lparr> exit_status = Never_returns,
            printed = out (dispatch_events events (loop_entry st)),
            live = st_live st,
            built_pipeline = Some (st_pipeline st), built_server = Some (st_server st),
            final_state = Some (dispatch_events events (loop_entry st)) \<rparr>
      | Some s \<Rightarrow>
          let s1 = gst_element_set_state GST_STATE_NULL (print Msg_cleaning_up s);
              h1 = gst_object_unref ''input-pipeline'' (st_live st);
              h2 = gst_object_unref ''rtsp-server'' h1;
              s2 = print Msg_shutdown_complete s1
          in
            \<lparr> exit_status = Exited 0, printed = out s2, live = h2,
              built_pipeline = Some (st_pipeline st), built_server = Some (st_server st),
              final_state = Some s2 \<rparr>)"

definition main :: "env \<Rightarrow> string \<Rightarrow> string list \<Rightarrow> event list \<Rightarrow> outcome" where
  "main e argv0 args events =
     (case main_startup e argv0 args of
        Inl oc \<Rightarrow> oc
      | Inr st \<Rightarrow> main_run st events)"

section \<open>Observations used by the properties\<close>

text \<open>The words of the playback graph the server is configured with, if it is created.\<close>

definition playback_graph_words :: "env \<Rightarrow> ReplayConfig \<Rightarrow> HWAccelType \<Rightarrow> string list option" where
  "playback_graph_words e config hw_type =
     map_option (\<lambda>srv. launch_words (launch srv)) (fst (create_rtsp_server e config hw_type))"

text \<open>The factories of the five elements the ingest pipeline requires.\<close>

definition required_factories :: "string list" where
  "required_factories = [''rtspsrc'', ''rtph264depay'', ''h264parse'', ''queue2'', ''filesink'']"

text \<open>The state requested for the pipeline after each message of a sequence.\<close>

fun requested_states :: "GstMessage list \<Rightarrow> run_state \<Rightarrow> GstState list" where
  "requested_states [] s = []"
| "requested_states (m # ms) s =
     requested_state (bus_callback m s) # requested_states ms (bus_callback m s)"

text \<open>
  The transitions of a sequence of requested states that starts after \<open>prev\<close>: the
  positions (counted from \<open>i\<close>) where the state differs from the one before, with
  both states.
\<close>

fun transitions :: "nat \<Rightarrow> GstState \<Rightarrow> GstState list \<Rightarrow> (nat \<times> GstState \<times> GstState) list" where
  "transitions i prev [] = []"
| "transitions i prev (x # xs) =
     (if x = prev then transitions (Suc i) x xs else (i, prev, x) # transitions (Suc i) x xs)"

text \<open>
  The links made so far: the pads of the successful calls of \<^verbatim>\<open>gst_pad_link\<close>. A
  delivery links its pad when it adds the pad to them.
\<close>

definition links_made :: "run_state \<Rightarrow> string list" where
  "links_made s = map fst (filter (\<lambda>(n, ret). ret = GST_PAD_LINK_OK) (link_calls s))"

definition links_pad :: "GstPad \<Rightarrow> GstPadLinkReturn \<Rightarrow> run_state \<Rightarrow> bool" where
  "links_pad pad ret s = (links_made (on_pad_added pad ret s) = links_made s @ [pad_name pad])"

text \<open>
  Two command lines that differ at most in the values supplied to \<^verbatim>\<open>--gpu\<close>, each
  value being one \<^verbatim>\<open>std::stoi\<close> accepts. The arguments are read as the loop of
  \<^verbatim>\<open>parse_arguments\<close> reads them: an option that takes a value is followed by its
  value.
\<close>

text \<open>Two configurations that agree on every field but \<^const>\<open>gpu_id\<close>.\<close>

definition same_but_gpu_id :: "ReplayConfig \<Rightarrow> ReplayConfig \<Rightarrow> bool" where
  "same_but_gpu_id c1 c2 =
     (input_rtsp_url c1 = input_rtsp_url c2 \<and> buffer_seconds c1 = buffer_seconds c2
      \<and> output_rtsp_port c1 = output_rtsp_port c2
      \<and> use_hardware_accel c1 = use_hardware_accel c2
      \<and> output_mount_point c1 = output_mount_point c2)"

definition stoi_accepts :: "string \<Rightarrow> bool" where
  "stoi_accepts v = (case stoi v of Inl ex \<Rightarrow> False | Inr n \<Rightarrow> True)"

definition takes_value :: "string \<Rightarrow> bool" where
  "takes_value arg =
     (arg \<in> set [''-i'', ''--input'', ''-b'', ''--buffer'', ''-p'', ''--port'', ''--gpu'', ''-m'',
                 ''--mount''])"

fun same_but_gpu :: "string list \<Rightarrow> string list \<Rightarrow> bool" where
  "same_but_gpu [] [] = True"
| "same_but_gpu (a # as) [] = False"
| "same_but_gpu [] (b # bs) = False"
| "same_but_gpu (a # as) (b # bs) =
     (a = b \<and>
      (if takes_value a \<and> as \<noteq> [] \<and> bs \<noteq> [] then
         (if a = ''--gpu'' then stoi_accepts (hd as) \<and> stoi_accepts (hd bs) else hd as = hd bs)
         \<and> same_but_gpu (tl as) (tl bs)
       else same_but_gpu as bs))"

text \<open>
  Two results of \<^verbatim>\<open>parse_arguments\<close> that cannot be told apart without reading
  \<^const>\<open>gpu_id\<close>: the same exception, or the same flag, the same lines printed and
  configurations that agree but for \<^const>\<open>gpu_id\<close>.
\<close>

definition same_parse ::
  "stoi_error + (bool \<times> ReplayConfig \<times> log_line list) \<Rightarrow>
   stoi_error + (bool \<times> ReplayConfig \<times> log_line list) \<Rightarrow> bool"
where
  "same_parse r1 r2 =
     (case r1 of
        Inl ex1 \<Rightarrow> r2 = Inl ex1
      | Inr (parsed1, c1, out1) \<Rightarrow>
          (case r2 of
             Inl ex2 \<Rightarrow> False
           | Inr (parsed2, c2, out2) \<Rightarrow>
               parsed1 = parsed2 \<and> same_but_gpu_id c1 c2 \<and> out1 = out2))"

text \<open>
  The events whose handler calls \<^verbatim>\<open>g_main_loop_quit\<close>: an Error or an
  EndOfStream notification (\<^verbatim>\<open>bus_callback\<close>) and a signal
  (\<^verbatim>\<open>signal_handler\<close>, the main loop existing).
\<close>

fun ends_loop :: "event \<Rightarrow> bool" where
  "ends_loop (Bus (GST_MESSAGE_ERROR src msg debug_info)) = True"
| "ends_loop (Bus GST_MESSAGE_EOS) = True"
| "ends_loop (Signal signum) = True"
| "ends_loop ev = False"

section \<open>Concrete inputs\<close>

text \<open>
  An environment in which everything the program asks of the engine succeeds, with the
  NVIDIA codecs registered; a running pipeline whose entry point is not linked yet; and
  three pads a source may announce.
\<close>

definition example_env :: env where
  "example_env =
     \<lparr> features = {''nvh264dec'', ''nvh264enc'', ''avdec_h264'', ''x264enc''},
       plugins = set required_plugins,
       pipeline_new_ok = True,
       factories = set required_factories,
       link_many_ok = True,
       server_new_ok = True,
       attach_id = 1,
       set_playing_ret = GST_STATE_CHANGE_ASYNC \<rparr>"

definition example_state :: run_state where
  "example_state =
     \<lparr> requested_state = GST_STATE_PLAYING, main_loop_exists = True, loop_quit = False,
       shutdown_requested = False, sink_peer = None, link_calls = [], out = [] \<rparr>"

definition video_pad_0 :: GstPad where
  "video_pad_0 =
     \<lparr> pad_name = ''recv_rtp_src_0'', caps_media = Some ''video'',
       caps_encoding_name = Some ''H264'' \<rparr>"

definition video_pad_1 :: GstPad where
  "video_pad_1 =
     \<lparr> pad_name = ''recv_rtp_src_1'', caps_media = Some ''video'',
       caps_encoding_name = Some ''H264'' \<rparr>"

definition audio_pad :: GstPad where
  "audio_pad =
     \<lparr> pad_name = ''recv_rtp_src_2'', caps_media = Some ''audio'',
       caps_encoding_name = Some ''MPEG4-GENERIC'' \<rparr>"

section \<open>Selection: properties\<close>

lemma detect_is_first_match: "detect_hardware_accel registry = spec_first_match registry"
  by (simp add: detect_hardware_accel_def spec_first_match_def priority_order_def
      backend_present_def)

lemma detect_present: "backend_present registry (detect_hardware_accel registry)"
  by (simp add: detect_hardware_accel_def backend_present_def)

lemma detect_minimal:
  "backend_present registry b \<Longrightarrow> priority (detect_hardware_accel registry) \<le> priority b"
  by (cases b) (auto simp: detect_hardware_accel_def backend_present_def)

lemma priority_inj: "priority a = priority b \<Longrightarrow> a = b"
  by (cases a; cases b) simp_all

lemma codec_pair_inj: "codec_pair a = codec_pair b \<Longrightarrow> a = b"
  by (cases a; cases b) (simp_all add: codec_pair_def)

text \<open>
  C6. For every capability report in which no hardware backend (NVIDIA, VAAPI, integrated
  MSDK) is present, selection returns the software codec pair: decoder
  \<^verbatim>\<open>avdec_h264\<close> and encoder \<^verbatim>\<open>x264enc\<close>. This holds for the probe and for the
  backend \<^verbatim>\<open>main\<close> works with, whatever the configuration.
\<close>

theorem software_pair_when_no_hardware:
  assumes "\<not> backend_present registry HW_ACCEL_NVIDIA"
    and "\<not> backend_present registry HW_ACCEL_VAAPI"
    and "\<not> backend_present registry HW_ACCEL_MSDK"
  shows "detect_hardware_accel registry = HW_ACCEL_NONE
       \<and> codec_pair (detect_hardware_accel registry) = (''avdec_h264'', ''x264enc'')
       \<and> codec_pair (main_hw_type config registry) = (''avdec_h264'', ''x264enc'')"
  using assms
  by (simp add: backend_present_def detect_hardware_accel_def main_hw_type_def codec_pair_def)

text \<open>
  The theorem at a registry that holds the software codecs and one hardware encoder, but
  no hardware decoder.
\<close>

theorem software_pair_when_no_hardware_witness:
  "\<not> backend_present {''avdec_h264'', ''x264enc'', ''nvh264enc''} HW_ACCEL_NVIDIA
   \<and> \<not> backend_present {''avdec_h264'', ''x264enc'', ''nvh264enc''} HW_ACCEL_VAAPI
   \<and> \<not> backend_present {''avdec_h264'', ''x264enc'', ''nvh264enc''} HW_ACCEL_MSDK
   \<and> detect_hardware_accel {''avdec_h264'', ''x264enc'', ''nvh264enc''} = HW_ACCEL_NONE
   \<and> codec_pair (main_hw_type default_config {''avdec_h264'', ''x264enc'', ''nvh264enc''})
       = (''avdec_h264'', ''x264enc'')"
proof -
  let ?r = "{''avdec_h264'', ''x264enc'', ''nvh264enc''}"
  have h1: "\<not> backend_present ?r HW_ACCEL_NVIDIA"
    by (simp add: backend_present_def gst_registry_lookup_feature_def)
  have h2: "\<not> backend_present ?r HW_ACCEL_VAAPI"
    by (simp add: backend_present_def gst_registry_lookup_feature_def)
  have h3: "\<not> backend_present ?r HW_ACCEL_MSDK"
    by (simp add: backend_present_def gst_registry_lookup_feature_def)
  from software_pair_when_no_hardware [OF h1 h2 h3, of default_config] h1 h2 h3
  show ?thesis by blast
qed

text \<open>
  C7, as stated, fails where a third backend of still higher priority is present: with
  NVIDIA, VAAPI and MSDK all present, take X = VAAPI and Y = MSDK; selection returns the
  NVIDIA pair, not X's.
\<close>

theorem middle_backend_counterexample:
  "backend_present {''nvh264dec'', ''vaapih264dec'', ''msdkh264dec''} HW_ACCEL_VAAPI
   \<and> backend_present {''nvh264dec'', ''vaapih264dec'', ''msdkh264dec''} HW_ACCEL_MSDK
   \<and> priority HW_ACCEL_VAAPI < priority HW_ACCEL_MSDK
   \<and> codec_pair (detect_hardware_accel {''nvh264dec'', ''vaapih264dec'', ''msdkh264dec''})
       = (''nvh264dec'', ''nvh264enc'')
   \<and> codec_pair (detect_hardware_accel {''nvh264dec'', ''vaapih264dec'', ''msdkh264dec''})
       \<noteq> codec_pair HW_ACCEL_VAAPI"
  by (simp add: backend_present_def gst_registry_lookup_feature_def detect_hardware_accel_def
      codec_pair_def)

text \<open>
  C7 (amended). For every capability report in which two backends X and Y are present and
  X has higher priority than Y in the fixed order (NVIDIA, VAAPI, integrated MSDK,
  software), selection never returns Y's codec pair, and it returns X's codec pair exactly
  when X is the first backend of the priority order that is present.
\<close>

theorem highest_priority_backend_selected:
  assumes "backend_present registry X" and "backend_present registry Y"
    and "priority X < priority Y"
  shows "codec_pair (detect_hardware_accel registry) \<noteq> codec_pair Y
       \<and> (codec_pair (detect_hardware_accel registry) = codec_pair X)
           = (find (backend_present registry) priority_order = Some X)"
proof -
  have le: "priority (detect_hardware_accel registry) \<le> priority X"
    using assms(1) by (rule detect_minimal)
  have "detect_hardware_accel registry \<noteq> Y"
    using le assms(3) by auto
  then have a: "codec_pair (detect_hardware_accel registry) \<noteq> codec_pair Y"
    using codec_pair_inj by blast
  have "find (backend_present registry) priority_order = Some (detect_hardware_accel registry)"
    by (simp add: detect_hardware_accel_def priority_order_def backend_present_def)
  then have b: "(codec_pair (detect_hardware_accel registry) = codec_pair X)
           = (find (backend_present registry) priority_order = Some X)"
    using codec_pair_inj by auto
  from a b show ?thesis by simp
qed

text \<open>The theorem at a registry with the NVIDIA and the VAAPI decoder.\<close>

theorem highest_priority_backend_selected_witness:
  "backend_present {''nvh264dec'', ''vaapih264dec''} HW_ACCEL_NVIDIA
   \<and> backend_present {''nvh264dec'', ''vaapih264dec''} HW_ACCEL_VAAPI
   \<and> priority HW_ACCEL_NVIDIA < priority HW_ACCEL_VAAPI
   \<and> codec_pair (detect_hardware_accel {''nvh264dec'', ''vaapih264dec''})
       \<noteq> (''vaapih264dec'', ''vaapih264enc'')
   \<and> codec_pair (detect_hardware_accel {''nvh264dec'', ''vaapih264dec''})
       = (''nvh264dec'', ''nvh264enc'')"
proof -
  let ?r = "{''nvh264dec'', ''vaapih264dec''}"
  have h1: "backend_present ?r HW_ACCEL_NVIDIA"
    by (simp add: backend_present_def gst_registry_lookup_feature_def)
  have h2: "backend_present ?r HW_ACCEL_VAAPI"
    by (simp add: backend_present_def gst_registry_lookup_feature_def)
  have h3: "priority HW_ACCEL_NVIDIA < priority HW_ACCEL_VAAPI" by simp
  have f: "find (backend_present ?r) priority_order = Some HW_ACCEL_NVIDIA"
    using h1 by (simp add: priority_order_def)
  from highest_priority_backend_selected [OF h1 h2 h3] f h1 h2 h3
  show ?thesis by (simp add: codec_pair_def)
qed

text \<open>
  C1, as stated, fails at a registry that holds the NVIDIA decoder and no NVIDIA encoder:
  the hardware pair is returned, and its encoder is not in the registry.
\<close>

theorem decoder_only_registry_counterexample:
  "detect_hardware_accel {''nvh264dec''} = HW_ACCEL_NVIDIA
   \<and> codec_pair (detect_hardware_accel {''nvh264dec''}) = (''nvh264dec'', ''nvh264enc'')
   \<and> \<not> gst_registry_lookup_feature {''nvh264dec''}
          (get_encoder_element (detect_hardware_accel {''nvh264dec''}))"
  by (simp add: detect_hardware_accel_def gst_registry_lookup_feature_def codec_pair_def)

text \<open>The probe does not look at encoders: removing them changes nothing.\<close>

lemma detect_ignores_encoders:
  "detect_hardware_accel (registry - {''nvh264enc'', ''vaapih264enc'', ''msdkh264enc''})
     = detect_hardware_accel registry"
  by (simp add: detect_hardware_accel_def gst_registry_lookup_feature_def)

text \<open>
  C1 (amended). The capability probe records one effective backend, used for decode and
  encode alike: the first backend in the fixed priority order (NVIDIA, then VAAPI, then
  integrated MSDK, then software) whose decoder the registry holds; encoders are not
  queried. For every registry state, the selected decoder is supported by the registry
  whenever a hardware pair is returned.
\<close>

theorem probe_records_decoder_backend:
  "detect_hardware_accel registry = spec_first_match registry
   \<and> detect_hardware_accel (registry - {''nvh264enc'', ''vaapih264enc'', ''msdkh264enc''})
       = detect_hardware_accel registry
   \<and> codec_pair (detect_hardware_accel registry)
       = (get_decoder_element (spec_first_match registry),
          get_encoder_element (spec_first_match registry))
   \<and> (detect_hardware_accel registry \<noteq> HW_ACCEL_NONE \<longrightarrow>
        gst_registry_lookup_feature registry
          (get_decoder_element (detect_hardware_accel registry)))"
proof (intro conjI impI)
  show f: "detect_hardware_accel registry = spec_first_match registry"
    by (rule detect_is_first_match)
  show "detect_hardware_accel (registry - {''nvh264enc'', ''vaapih264enc'', ''msdkh264enc''})
       = detect_hardware_accel registry"
    by (rule detect_ignores_encoders)
  show "codec_pair (detect_hardware_accel registry)
       = (get_decoder_element (spec_first_match registry),
          get_encoder_element (spec_first_match registry))"
    by (simp add: codec_pair_def f)
next
  assume "detect_hardware_accel registry \<noteq> HW_ACCEL_NONE"
  then show "gst_registry_lookup_feature registry
          (get_decoder_element (detect_hardware_accel registry))"
    by (auto simp: detect_hardware_accel_def split: if_splits)
qed

text \<open>
  The theorem at a registry whose only feature is the VAAPI decoder, and at one that
  holds encoders only.
\<close>

theorem probe_records_decoder_backend_witness:
  "detect_hardware_accel {''vaapih264dec''} \<noteq> HW_ACCEL_NONE
   \<and> gst_registry_lookup_feature {''vaapih264dec''}
        (get_decoder_element (detect_hardware_accel {''vaapih264dec''}))
   \<and> detect_hardware_accel {''vaapih264dec''} = HW_ACCEL_VAAPI
   \<and> detect_hardware_accel {''x264enc'', ''nvh264enc''} = HW_ACCEL_NONE"
proof -
  have h: "detect_hardware_accel {''vaapih264dec''} \<noteq> HW_ACCEL_NONE"
    by (simp add: detect_hardware_accel_def gst_registry_lookup_feature_def)
  have v: "spec_first_match {''vaapih264dec''} = HW_ACCEL_VAAPI"
    by (simp add: spec_first_match_def priority_order_def backend_present_def
        gst_registry_lookup_feature_def)
  have n: "spec_first_match {''x264enc'', ''nvh264enc''} = HW_ACCEL_NONE"
    by (simp add: spec_first_match_def priority_order_def backend_present_def
        gst_registry_lookup_feature_def)
  note t = probe_records_decoder_backend [of "{''vaapih264dec''}"]
  have a: "gst_registry_lookup_feature {''vaapih264dec''}
        (get_decoder_element (detect_hardware_accel {''vaapih264dec''}))"
    by (rule t [THEN conjunct2, THEN conjunct2, THEN conjunct2, THEN mp, OF h])
  have b: "detect_hardware_accel {''vaapih264dec''} = HW_ACCEL_VAAPI"
    using t [THEN conjunct1] v by simp
  have c: "detect_hardware_accel {''x264enc'', ''nvh264enc''} = HW_ACCEL_NONE"
    using probe_records_decoder_backend [of "{''x264enc'', ''nvh264enc''}", THEN conjunct1] n
    by simp
  from h a b c show ?thesis by (intro conjI) assumption+
qed

section \<open>Event dispatcher: buffering\<close>

text \<open>The state requested by a buffering notification depends on its percentage only.\<close>

lemma requested_state_buffering:
  "requested_state (bus_callback (GST_MESSAGE_BUFFERING percent) s)
     = (if percent < 100 then GST_STATE_PAUSED else GST_STATE_PLAYING)"
  by (simp add: gst_element_set_state_def print_def)

text \<open>
  C3. Buffering notifications are level-triggered: from requested state Playing, the
  percentages 100, 100, 60, 60, 100 produce exactly two transitions of the requested
  state, Playing to Paused at the first 60 (position 2) and Paused to Playing at the final
  100 (position 4); and a notification repeated with the same percentage never changes
  the requested state.
\<close>

theorem buffering_level_triggered:
  "requested_states (map GST_MESSAGE_BUFFERING [100, 100, 60, 60, 100])
       (s\<lparr>requested_state := GST_STATE_PLAYING\<rparr>)
     = [GST_STATE_PLAYING, GST_STATE_PLAYING, GST_STATE_PAUSED, GST_STATE_PAUSED,
        GST_STATE_PLAYING]
   \<and> transitions 0 GST_STATE_PLAYING
        (requested_states (map GST_MESSAGE_BUFFERING [100, 100, 60, 60, 100])
           (s\<lparr>requested_state := GST_STATE_PLAYING\<rparr>))
     = [(2, GST_STATE_PLAYING, GST_STATE_PAUSED), (4, GST_STATE_PAUSED, GST_STATE_PLAYING)]
   \<and> requested_state
        (bus_callback (GST_MESSAGE_BUFFERING percent)
           (bus_callback (GST_MESSAGE_BUFFERING percent) s))
     = requested_state (bus_callback (GST_MESSAGE_BUFFERING percent) s)"
  by (simp add: requested_state_buffering eval_nat_numeral del: bus_callback.simps)

section \<open>Dynamic link resolver\<close>

text \<open>
  The link state after a delivery: the entry point gets a peer, and a call of
  \<^verbatim>\<open>gst_pad_link\<close> is made, only for an H.264 video pad that finds the entry point
  unlinked.
\<close>

lemma on_pad_added_link_state:
  "sink_peer (on_pad_added pad ret s)
     = (if caps_media pad = Some ''video'' \<and> caps_encoding_name pad = Some ''H264''
           \<and> sink_peer s = None \<and> ret = GST_PAD_LINK_OK
        then Some (pad_name pad) else sink_peer s)"
  "link_calls (on_pad_added pad ret s)
     = (if caps_media pad = Some ''video'' \<and> caps_encoding_name pad = Some ''H264''
           \<and> sink_peer s = None
        then link_calls s @ [(pad_name pad, ret)] else link_calls s)"
  by (auto simp: on_pad_added_def Let_def gst_pad_is_linked_def print_def gst_pad_link_def
      GST_PAD_LINK_FAILED_def)

lemma links_made_on_pad_added:
  "links_made (on_pad_added pad ret s)
     = (if caps_media pad = Some ''video'' \<and> caps_encoding_name pad = Some ''H264''
           \<and> sink_peer s = None \<and> ret = GST_PAD_LINK_OK
        then links_made s @ [pad_name pad] else links_made s)"
  by (simp add: links_made_def on_pad_added_link_state)

lemma example_state_links: "sink_peer example_state = None" "links_made example_state = []"
  by (simp_all add: example_state_def links_made_def)

text \<open>
  C4, as stated, fails in the direction from the media description to the link: a second
  H.264 video pad, announced when the entry point is already linked to the first, is not
  linked; and an H.264 video pad whose link the engine refuses is not linked either.
\<close>

theorem second_video_pad_counterexample:
  "caps_media video_pad_1 = Some ''video''
   \<and> caps_encoding_name video_pad_1 = Some ''H264''
   \<and> sink_peer (on_pad_added video_pad_0 GST_PAD_LINK_OK example_state) = Some ''recv_rtp_src_0''
   \<and> sink_peer
       (on_pad_added video_pad_1 GST_PAD_LINK_OK
          (on_pad_added video_pad_0 GST_PAD_LINK_OK example_state))
     = Some ''recv_rtp_src_0''
   \<and> links_made
       (on_pad_added video_pad_1 GST_PAD_LINK_OK
          (on_pad_added video_pad_0 GST_PAD_LINK_OK example_state))
     = [''recv_rtp_src_0'']
   \<and> \<not> links_pad video_pad_1 GST_PAD_LINK_OK
         (on_pad_added video_pad_0 GST_PAD_LINK_OK example_state)
   \<and> \<not> links_pad video_pad_0 GST_PAD_LINK_REFUSED example_state"
  by (simp add: links_pad_def links_made_on_pad_added on_pad_added_link_state
      example_state_links video_pad_0_def video_pad_1_def)

text \<open>
  C4 (amended). An announced source endpoint is linked into the static subgraph's entry
  point if and only if its negotiated media kind is "video", its encoding name is "H264",
  the entry point is not linked yet and the engine's link call succeeds; every endpoint
  whose media kind is "audio" (or any non-matching kind or encoding) is ignored and never
  linked: it leaves the entry point's peer and the link calls as they were.
\<close>

theorem pad_linked_iff:
  "links_pad pad ret s
     = (caps_media pad = Some ''video'' \<and> caps_encoding_name pad = Some ''H264''
        \<and> sink_peer s = None \<and> ret = GST_PAD_LINK_OK)
   \<and> (caps_media pad = Some ''audio'' \<longrightarrow>
        \<not> links_pad pad ret s
        \<and> sink_peer (on_pad_added pad ret s) = sink_peer s
        \<and> link_calls (on_pad_added pad ret s) = link_calls s)
   \<and> (\<not> (caps_media pad = Some ''video'' \<and> caps_encoding_name pad = Some ''H264'') \<longrightarrow>
        sink_peer (on_pad_added pad ret s) = sink_peer s
        \<and> link_calls (on_pad_added pad ret s) = link_calls s)"
  by (auto simp: links_pad_def links_made_on_pad_added on_pad_added_link_state)

text \<open>The theorem at an audio pad and at an H.264 video pad, the entry point unlinked.\<close>

theorem pad_linked_iff_witness:
  "caps_media audio_pad = Some ''audio''
   \<and> \<not> links_pad audio_pad GST_PAD_LINK_OK example_state
   \<and> sink_peer (on_pad_added audio_pad GST_PAD_LINK_OK example_state) = None
   \<and> link_calls (on_pad_added audio_pad GST_PAD_LINK_OK example_state) = []
   \<and> links_pad video_pad_0 GST_PAD_LINK_OK example_state"
proof -
  have h: "caps_media audio_pad = Some ''audio''"
    by (simp add: audio_pad_def)
  have n: "\<not> (caps_media audio_pad = Some ''video'' \<and> caps_encoding_name audio_pad = Some ''H264'')"
    by (simp add: audio_pad_def)
  have v: "caps_media video_pad_0 = Some ''video'' \<and> caps_encoding_name video_pad_0 = Some ''H264''
        \<and> sink_peer example_state = None"
    by (simp add: video_pad_0_def example_state_def)
  have s: "sink_peer example_state = None" "link_calls example_state = []"
    by (simp_all add: example_state_def)
  from pad_linked_iff [of audio_pad GST_PAD_LINK_OK example_state] h n
  have a: "\<not> links_pad audio_pad GST_PAD_LINK_OK example_state
        \<and> sink_peer (on_pad_added audio_pad GST_PAD_LINK_OK example_state) = sink_peer example_state
        \<and> link_calls (on_pad_added audio_pad GST_PAD_LINK_OK example_state)
            = link_calls example_state"
    by blast
  from pad_linked_iff [of video_pad_0 GST_PAD_LINK_OK example_state] v
  have b: "links_pad video_pad_0 GST_PAD_LINK_OK example_state" by blast
  from a b h s show ?thesis by simp
qed

text \<open>
  C5. Dynamic linking is idempotent: when an H.264 video endpoint is announced to an
  unlinked entry point and linked, delivering the same announcement a second time
  (whatever the engine would answer) results in exactly one link and leaves the link
  state, the peer of the entry point and the link calls, unchanged; an entry point that
  is already linked is never relinked; and for every announcement the peer after two
  deliveries is the peer after one.
\<close>

theorem linking_idempotent:
  assumes "caps_media pad = Some ''video''" and "caps_encoding_name pad = Some ''H264''"
    and "sink_peer s = None"
  shows "sink_peer (on_pad_added pad GST_PAD_LINK_OK s) = Some (pad_name pad)
       \<and> links_made (on_pad_added pad ret2 (on_pad_added pad GST_PAD_LINK_OK s))
           = links_made s @ [pad_name pad]
       \<and> sink_peer (on_pad_added pad ret2 (on_pad_added pad GST_PAD_LINK_OK s))
           = sink_peer (on_pad_added pad GST_PAD_LINK_OK s)
       \<and> link_calls (on_pad_added pad ret2 (on_pad_added pad GST_PAD_LINK_OK s))
           = link_calls (on_pad_added pad GST_PAD_LINK_OK s)
       \<and> (\<forall>p r s'. sink_peer s' \<noteq> None \<longrightarrow>
             sink_peer (on_pad_added p r s') = sink_peer s'
             \<and> link_calls (on_pad_added p r s') = link_calls s')
       \<and> (\<forall>p r s'. sink_peer (on_pad_added p r (on_pad_added p r s'))
             = sink_peer (on_pad_added p r s'))"
  using assms by (simp add: links_made_on_pad_added on_pad_added_link_state)

text \<open>The theorem at the first H.264 video pad, delivered twice.\<close>

theorem linking_idempotent_witness:
  "caps_media video_pad_0 = Some ''video''
   \<and> caps_encoding_name video_pad_0 = Some ''H264''
   \<and> sink_peer example_state = None
   \<and> links_made
       (on_pad_added video_pad_0 GST_PAD_LINK_OK
          (on_pad_added video_pad_0 GST_PAD_LINK_OK example_state))
     = [''recv_rtp_src_0'']
   \<and> sink_peer
       (on_pad_added video_pad_0 GST_PAD_LINK_OK
          (on_pad_added video_pad_0 GST_PAD_LINK_OK example_state))
     = Some ''recv_rtp_src_0''"
proof -
  have h1: "caps_media video_pad_0 = Some ''video''" by (simp add: video_pad_0_def)
  have h2: "caps_encoding_name video_pad_0 = Some ''H264''" by (simp add: video_pad_0_def)
  have h3: "sink_peer example_state = None" by (simp add: example_state_def)
  have l: "links_made example_state = []" by (simp add: example_state_def links_made_def)
  have n: "pad_name video_pad_0 = ''recv_rtp_src_0''" by (simp add: video_pad_0_def)
  from linking_idempotent [OF h1 h2 h3, of GST_PAD_LINK_OK] l n h1 h2 h3
  show ?thesis by simp
qed

section \<open>Pipeline builder: failure\<close>

text \<open>
  Construction fails exactly when the pipeline, one of the five elements or the static
  link cannot be made, and a failed construction leaves no object alive.
\<close>

lemma create_input_pipeline_result:
  "fst (create_input_pipeline e config hw_type) = None
     \<longleftrightarrow> (\<not> pipeline_new_ok e \<or> \<not> set required_factories \<subseteq> factories e \<or> \<not> link_many_ok e)"
  by (auto simp: create_input_pipeline_def required_factories_def gst_element_factory_make_def
      Let_def split: if_splits)

lemma create_input_pipeline_live:
  "fst (create_input_pipeline e config hw_type) = None \<Longrightarrow>
   fst (snd (create_input_pipeline e config hw_type)) = []"
  by (auto simp: create_input_pipeline_def gst_element_factory_make_def gst_object_new_def
      gst_object_unref_def unref_if_made_def gst_bin_add_many_def
      Let_def split: if_splits)

text \<open>When construction always fails, \<^verbatim>\<open>main\<close> ends before the main loop.\<close>

lemma main_after_parse_no_pipeline:
  assumes "\<And>config hw_type. fst (create_input_pipeline e config hw_type) = None"
  shows "\<exists>oc. main_after_parse e config out1 = Inl oc \<and> exit_status oc = Exited 1
          \<and> live oc = [] \<and> final_state oc = None"
proof -
  obtain p h o4 where c: "create_input_pipeline e config (main_hw_type config (features e)) = (p, h, o4)"
    by (cases "create_input_pipeline e config (main_hw_type config (features e))") auto
  have "p = None" using assms [of config "main_hw_type config (features e)"] c by simp
  moreover have "h = []"
    using create_input_pipeline_live [of e config "main_hw_type config (features e)"] c
      \<open>p = None\<close> by simp
  ultimately show ?thesis using c
    by (simp add: main_after_parse_def Let_def failed_def split: prod.splits)
qed

lemma main_no_pipeline:
  assumes "\<And>config hw_type. fst (create_input_pipeline e config hw_type) = None"
  shows "exit_status (main e argv0 args events) \<noteq> Exited 0
       \<and> exit_status (main e argv0 args events) \<noteq> Never_returns
       \<and> live (main e argv0 args events) = []
       \<and> final_state (main e argv0 args events) = None"
proof (cases "parse_arguments argv0 args default_config")
  case (Inl ex)
  then show ?thesis by (simp add: main_def main_startup_def)
next
  case (Inr r)
  obtain parsed config out1 where r: "r = (parsed, config, out1)" by (cases r) auto
  show ?thesis
  proof (cases parsed)
    case False
    then show ?thesis using Inr r by (simp add: main_def main_startup_def failed_def)
  next
    case True
    from main_after_parse_no_pipeline [OF assms, of config "[Msg_initializing] @ out1"]
    obtain oc where "main_after_parse e config ([Msg_initializing] @ out1) = Inl oc"
      and "exit_status oc = Exited 1" and "live oc = []" and "final_state oc = None"
      by blast
    then show ?thesis using Inr r True by (simp add: main_def main_startup_def)
  qed
qed

text \<open>
  C8. If any required ingest-pipeline element (source, depacketizer, parser, ring buffer,
  sink) cannot be instantiated, or if linking the static elements fails, construction
  returns a failure (no handle) and every element already created is released; the
  program then ends without running the main loop and without a live object, so no
  partial pipeline is left running.
\<close>

theorem construction_fails_fast:
  assumes "(\<exists>f \<in> set required_factories. f \<notin> factories e) \<or> \<not> link_many_ok e"
  shows "fst (create_input_pipeline e config hw_type) = None
       \<and> fst (snd (create_input_pipeline e config hw_type)) = []
       \<and> exit_status (main e argv0 args events) \<noteq> Exited 0
       \<and> exit_status (main e argv0 args events) \<noteq> Never_returns
       \<and> live (main e argv0 args events) = []
       \<and> final_state (main e argv0 args events) = None"
proof -
  have n: "\<And>config hw_type. fst (create_input_pipeline e config hw_type) = None"
    using assms by (auto simp: create_input_pipeline_result)
  from n [of config hw_type] create_input_pipeline_live [OF n, of config hw_type]
    main_no_pipeline [OF n, of argv0 args events]
  show ?thesis by simp
qed

text \<open>The theorem in an environment where the ring buffer element cannot be made.\<close>

theorem construction_fails_fast_witness:
  "''queue2'' \<in> set required_factories
   \<and> ''queue2'' \<notin> factories (example_env\<lparr>factories := {''rtspsrc'', ''rtph264depay'', ''h264parse'', ''filesink''}\<rparr>)
   \<and> create_input_pipeline
        (example_env\<lparr>factories := {''rtspsrc'', ''rtph264depay'', ''h264parse'', ''filesink''}\<rparr>)
        default_config HW_ACCEL_NVIDIA = (None, [], [Msg_elements_failed])
   \<and> exit_status
        (main (example_env\<lparr>factories := {''rtspsrc'', ''rtph264depay'', ''h264parse'', ''filesink''}\<rparr>)
           ''instant-replay'' [''-i'', ''rtsp://camera:554/stream''] [Bus GST_MESSAGE_EOS])
       = Exited 1
   \<and> live
        (main (example_env\<lparr>factories := {''rtspsrc'', ''rtph264depay'', ''h264parse'', ''filesink''}\<rparr>)
           ''instant-replay'' [''-i'', ''rtsp://camera:554/stream''] [Bus GST_MESSAGE_EOS])
       = []"
proof -
  let ?e = "example_env\<lparr>factories := {''rtspsrc'', ''rtph264depay'', ''h264parse'', ''filesink''}\<rparr>"
  have h1: "''queue2'' \<in> set required_factories" by (simp add: required_factories_def)
  have h2: "''queue2'' \<notin> factories ?e" by simp
  have h: "(\<exists>f \<in> set required_factories. f \<notin> factories ?e) \<or> \<not> link_many_ok ?e"
    using h1 h2 by blast
  have o: "snd (snd (create_input_pipeline ?e default_config HW_ACCEL_NVIDIA)) = [Msg_elements_failed]"
    by (simp add: create_input_pipeline_def example_env_def gst_element_factory_make_def Let_def)
  have x: "exit_status (main ?e ''instant-replay'' [''-i'', ''rtsp://camera:554/stream'']
             [Bus GST_MESSAGE_EOS]) \<in> {Exited 0, Exited 1, Never_returns}"
    by (simp add: main_def main_startup_def parse_arguments_def main_after_parse_def
        check_required_plugins_def required_plugins_def example_env_def
        create_input_pipeline_def gst_element_factory_make_def Let_def default_config_def
        failed_def)
  from construction_fails_fast [OF h, of default_config HW_ACCEL_NVIDIA "''instant-replay''"
      "[''-i'', ''rtsp://camera:554/stream'']" "[Bus GST_MESSAGE_EOS]"] h1 h2 o x
  show ?thesis by (auto simp: prod_eq_iff)
qed

section \<open>Command line: the value of \<^verbatim>\<open>--gpu\<close>\<close>

text \<open>Agreement but for \<^const>\<open>gpu_id\<close> is kept by every assignment of the loop.\<close>

lemma same_but_gpu_id_refl: "same_but_gpu_id c c"
  by (simp add: same_but_gpu_id_def)

lemma same_but_gpu_id_update:
  "same_but_gpu_id c1 c2 \<Longrightarrow> same_but_gpu_id (c1\<lparr>gpu_id := g1\<rparr>) (c2\<lparr>gpu_id := g2\<rparr>)"
  "same_but_gpu_id c1 c2 \<Longrightarrow> same_but_gpu_id (c1\<lparr>input_rtsp_url := u\<rparr>) (c2\<lparr>input_rtsp_url := u\<rparr>)"
  "same_but_gpu_id c1 c2 \<Longrightarrow> same_but_gpu_id (c1\<lparr>buffer_seconds := n\<rparr>) (c2\<lparr>buffer_seconds := n\<rparr>)"
  "same_but_gpu_id c1 c2 \<Longrightarrow> same_but_gpu_id (c1\<lparr>output_rtsp_port := n\<rparr>) (c2\<lparr>output_rtsp_port := n\<rparr>)"
  "same_but_gpu_id c1 c2 \<Longrightarrow> same_but_gpu_id (c1\<lparr>use_hardware_accel := b\<rparr>) (c2\<lparr>use_hardware_accel := b\<rparr>)"
  "same_but_gpu_id c1 c2 \<Longrightarrow> same_but_gpu_id (c1\<lparr>output_mount_point := u\<rparr>) (c2\<lparr>output_mount_point := u\<rparr>)"
  by (simp_all add: same_but_gpu_id_def)

text \<open>One round of the loop, option by option.\<close>

lemma same_parse_Inl: "same_parse (Inl ex) (Inl ex)"
  by (simp add: same_parse_def)

lemma same_parse_Inr:
  "same_but_gpu_id c1 c2 \<Longrightarrow> same_parse (Inr (parsed, c1, out1)) (Inr (parsed, c2, out1))"
  by (simp add: same_parse_def)

lemma parse_loop_input:
  "arg = ''-i'' \<or> arg = ''--input'' \<Longrightarrow>
   parse_loop argv0 (arg # v # rest) c = parse_loop argv0 rest (c\<lparr>input_rtsp_url := v\<rparr>)"
  by (elim disjE) simp_all

lemma parse_loop_buffer:
  "arg = ''-b'' \<or> arg = ''--buffer'' \<Longrightarrow>
   parse_loop argv0 (arg # v # rest) c
     = (case stoi v of Inl ex \<Rightarrow> Inl ex
        | Inr n \<Rightarrow> parse_loop argv0 rest (c\<lparr>buffer_seconds := n\<rparr>))"
  by (elim disjE) (simp_all split: sum.splits)

lemma parse_loop_port:
  "arg = ''-p'' \<or> arg = ''--port'' \<Longrightarrow>
   parse_loop argv0 (arg # v # rest) c
     = (case stoi v of Inl ex \<Rightarrow> Inl ex
        | Inr n \<Rightarrow> parse_loop argv0 rest (c\<lparr>output_rtsp_port := n\<rparr>))"
  by (elim disjE) (simp_all split: sum.splits)

lemma parse_loop_gpu:
  "parse_loop argv0 (''--gpu'' # v # rest) c
     = (case stoi v of Inl ex \<Rightarrow> Inl ex
        | Inr n \<Rightarrow> parse_loop argv0 rest (c\<lparr>gpu_id := n\<rparr>))"
  by (simp split: sum.splits)

lemma parse_loop_mount:
  "arg = ''-m'' \<or> arg = ''--mount'' \<Longrightarrow>
   parse_loop argv0 (arg # v # rest) c = parse_loop argv0 rest (c\<lparr>output_mount_point := v\<rparr>)"
  by (elim disjE) simp_all

lemma takes_value_cases:
  "takes_value a \<Longrightarrow>
   a = ''-i'' \<or> a = ''--input'' \<or> a = ''-b'' \<or> a = ''--buffer''
   \<or> a = ''-p'' \<or> a = ''--port'' \<or> a = ''--gpu'' \<or> a = ''-m'' \<or> a = ''--mount''"
  by (simp only: takes_value_def set_simps insert_iff empty_iff simp_thms)

lemma parse_loop_last:
  "takes_value a \<Longrightarrow> parse_loop argv0 [a] c = Inr (False, c, [Msg_unknown_argument a])"
  by (drule takes_value_cases) (elim disjE, simp_all)

lemma parse_loop_no_value:
  "\<not> takes_value a \<Longrightarrow>
   parse_loop argv0 (a # rest) c
     = (if a = ''--no-hw'' then parse_loop argv0 rest (c\<lparr>use_hardware_accel := False\<rparr>)
        else if a = ''-h'' \<or> a = ''--help'' then Inr (False, c, [Msg_help argv0])
        else Inr (False, c, [Msg_unknown_argument a]))"
  by (simp add: takes_value_def)

text \<open>
  The loop on two command lines that differ in accepted values of \<^verbatim>\<open>--gpu\<close> only,
  started in configurations that agree but for \<^const>\<open>gpu_id\<close>.
\<close>

lemma parse_loop_same_but_gpu:
  "same_but_gpu as bs \<Longrightarrow> same_but_gpu_id c1 c2 \<Longrightarrow>
   same_parse (parse_loop argv0 as c1) (parse_loop argv0 bs c2)"
proof (induction as bs arbitrary: c1 c2 rule: same_but_gpu.induct)
  case 1
  then show ?case by (simp add: same_parse_def same_but_gpu_id_def)
next
  case (2 a as)
  then show ?case by simp
next
  case (3 b bs)
  then show ?case by simp
next
  case (4 a as b bs)
  from "4.prems"(1) have ab: "b = a" by simp
  note c = "4.prems"(2)
  show ?case
  proof (cases "takes_value a \<and> as \<noteq> [] \<and> bs \<noteq> []")
    case True
    then obtain v as' w bs' where as: "as = v # as'" and bs: "bs = w # bs'"
      by (cases as; cases bs) simp_all
    from "4.prems"(1) True as bs ab have rest: "same_but_gpu as' bs'" by simp
    have ih: "same_parse (parse_loop argv0 as' d1) (parse_loop argv0 bs' d2)"
      if "same_but_gpu_id d1 d2" for d1 d2
      using "4.IH"(1) [OF True] rest as bs that by simp
    show ?thesis
    proof (cases "a = ''--gpu''")
      case gpu: True
      from "4.prems"(1) \<open>takes_value a \<and> as \<noteq> [] \<and> bs \<noteq> []\<close> as bs ab gpu
      have "stoi_accepts v" and "stoi_accepts w" by simp_all
      then obtain n m where "stoi v = Inr n" and "stoi w = Inr m"
        by (auto simp: stoi_accepts_def split: sum.splits)
      then show ?thesis
        unfolding ab as bs gpu parse_loop_gpu
        using ih [OF same_but_gpu_id_update(1) [OF c]] by simp
    next
      case nogpu: False
      from "4.prems"(1) True as bs ab nogpu have vw: "w = v" by simp
      from True have "takes_value a" by simp
      from takes_value_cases [OF this] nogpu
      consider "a = ''-i'' \<or> a = ''--input''" | "a = ''-b'' \<or> a = ''--buffer''"
        | "a = ''-p'' \<or> a = ''--port''" | "a = ''-m'' \<or> a = ''--mount''"
        by (elim disjE) simp_all
      then show ?thesis
      proof cases
        case 1
        show ?thesis
          unfolding ab as bs vw parse_loop_input [OF 1]
          by (rule ih [OF same_but_gpu_id_update(2) [OF c]])
      next
        case 2
        show ?thesis
          unfolding ab as bs vw parse_loop_buffer [OF 2]
          by (cases "stoi v")
            (simp_all add: same_parse_Inl ih [OF same_but_gpu_id_update(3) [OF c]])
      next
        case 3
        show ?thesis
          unfolding ab as bs vw parse_loop_port [OF 3]
          by (cases "stoi v")
            (simp_all add: same_parse_Inl ih [OF same_but_gpu_id_update(4) [OF c]])
      next
        case 4
        show ?thesis
          unfolding ab as bs vw parse_loop_mount [OF 4]
          by (rule ih [OF same_but_gpu_id_update(6) [OF c]])
      qed
    qed
  next
    case False
    from "4.prems"(1) False ab have rest: "same_but_gpu as bs" by simp
    have ih: "same_parse (parse_loop argv0 as d1) (parse_loop argv0 bs d2)"
      if "same_but_gpu_id d1 d2" for d1 d2
      using "4.IH"(2) [OF False] rest that by simp
    show ?thesis
    proof (cases "takes_value a")
      case True
      have e: "as = []" "bs = []"
        using False True rest by (cases as; cases bs; simp)+
      show ?thesis
        unfolding ab e parse_loop_last [OF True] by (rule same_parse_Inr [OF c])
    next
      case nv: False
      show ?thesis
        unfolding ab parse_loop_no_value [OF nv]
        using ih [OF same_but_gpu_id_update(5) [OF c]] c
        by (simp add: same_parse_Inr)
    qed
  qed
qed

text \<open>Nothing after the parse reads \<^const>\<open>gpu_id\<close>.\<close>

lemma create_input_pipeline_same:
  assumes "same_but_gpu_id c1 c2"
  shows "create_input_pipeline e c1 hw = create_input_pipeline e c2 hw"
proof -
  have f: "input_rtsp_url c1 = input_rtsp_url c2" "buffer_seconds c1 = buffer_seconds c2"
    using assms by (simp_all add: same_but_gpu_id_def)
  show ?thesis unfolding create_input_pipeline_def f ..
qed

lemma create_rtsp_server_same:
  assumes "same_but_gpu_id c1 c2"
  shows "create_rtsp_server e c1 hw = create_rtsp_server e c2 hw"
proof -
  have f: "output_rtsp_port c1 = output_rtsp_port c2"
    "output_mount_point c1 = output_mount_point c2"
    using assms by (simp_all add: same_but_gpu_id_def)
  show ?thesis unfolding create_rtsp_server_def f ..
qed

lemma main_hw_type_same:
  "same_but_gpu_id c1 c2 \<Longrightarrow> main_hw_type c1 r = main_hw_type c2 r"
  by (simp add: main_hw_type_def same_but_gpu_id_def)

lemma main_after_parse_same:
  assumes "same_but_gpu_id c1 c2"
  shows "main_after_parse e c1 out1 = main_after_parse e c2 out1"
proof -
  have f: "input_rtsp_url c1 = input_rtsp_url c2" "buffer_seconds c1 = buffer_seconds c2"
    "output_rtsp_port c1 = output_rtsp_port c2" "use_hardware_accel c1 = use_hardware_accel c2"
    "output_mount_point c1 = output_mount_point c2"
    using assms by (simp_all add: same_but_gpu_id_def)
  show ?thesis
    unfolding main_after_parse_def f main_hw_type_same [OF assms]
      create_input_pipeline_same [OF assms] create_rtsp_server_same [OF assms] ..
qed

text \<open>
  C9 (amended). For every pair of command lines that differ only in the values supplied
  to \<^verbatim>\<open>--gpu <id>\<close>, each value being one that \<^verbatim>\<open>std::stoi\<close> accepts, the
  program's observable configuration and behaviour are identical: the parsed
  \<^const>\<open>gpu_id\<close> is never read after argument parsing, so backend detection, pipeline
  construction and server configuration do not depend on it.
\<close>

theorem gpu_id_not_observable:
  "main_after_parse e (config\<lparr>gpu_id := g\<rparr>) out1 = main_after_parse e config out1
   \<and> (same_but_gpu args1 args2 \<longrightarrow>
        main e argv0 args1 events = main e argv0 args2 events)"
proof
  have "same_but_gpu_id (config\<lparr>gpu_id := g\<rparr>) config"
    by (simp add: same_but_gpu_id_def)
  then show "main_after_parse e (config\<lparr>gpu_id := g\<rparr>) out1 = main_after_parse e config out1"
    by (rule main_after_parse_same)
next
  show "same_but_gpu args1 args2 \<longrightarrow> main e argv0 args1 events = main e argv0 args2 events"
  proof
    assume a: "same_but_gpu args1 args2"
    have p: "same_parse (parse_loop argv0 args1 default_config)
               (parse_loop argv0 args2 default_config)"
      using a same_but_gpu_id_refl by (rule parse_loop_same_but_gpu)
    have "main_startup e argv0 args1 = main_startup e argv0 args2"
      using p main_after_parse_same [of _ _ e]
      by (auto simp: main_startup_def parse_arguments_def same_parse_def split: sum.splits)
    then show "main e argv0 args1 events = main e argv0 args2 events"
      by (simp add: main_def)
  qed
qed


text \<open>The definitions that evaluate a run on concrete inputs.\<close>

lemmas run_defs =
  main_def main_startup_def parse_arguments_def main_after_parse_def main_run_def
  check_required_plugins_def required_plugins_def required_factories_def example_env_def
  create_input_pipeline_def create_rtsp_server_def gst_element_factory_make_def
  default_config_def failed_def main_hw_type_def detect_hardware_accel_def
  gst_registry_lookup_feature_def g_main_loop_run_def loop_entry_def
  g_main_loop_quit_def print_def gst_element_set_state_def

lemma stoi_examples:
  "stoi ''0'' = Inr 0" "stoi ''1'' = Inr 1" "stoi ''x'' = Inl invalid_argument"
  by (simp_all add: stoi_def isspace_def isdigit_def digits_value_def Let_def)

text \<open>
  The theorem at \<^verbatim>\<open>--gpu 0\<close> and \<^verbatim>\<open>--gpu 1\<close>: the parsed identifiers differ,
  the runs do not.
\<close>

theorem gpu_id_not_observable_witness:
  "same_but_gpu [''-i'', ''rtsp://camera:554/stream'', ''--gpu'', ''0'']
     [''-i'', ''rtsp://camera:554/stream'', ''--gpu'', ''1'']
   \<and> map_sum id (\<lambda>(parsed, config, out1). gpu_id config)
        (parse_arguments ''instant-replay''
           [''-i'', ''rtsp://camera:554/stream'', ''--gpu'', ''0''] default_config) = Inr 0
   \<and> map_sum id (\<lambda>(parsed, config, out1). gpu_id config)
        (parse_arguments ''instant-replay''
           [''-i'', ''rtsp://camera:554/stream'', ''--gpu'', ''1''] default_config) = Inr 1
   \<and> main example_env ''instant-replay''
        [''-i'', ''rtsp://camera:554/stream'', ''--gpu'', ''0''] [Bus GST_MESSAGE_EOS]
     = main example_env ''instant-replay''
        [''-i'', ''rtsp://camera:554/stream'', ''--gpu'', ''1''] [Bus GST_MESSAGE_EOS]"
proof -
  have h: "same_but_gpu [''-i'', ''rtsp://camera:554/stream'', ''--gpu'', ''0'']
     [''-i'', ''rtsp://camera:554/stream'', ''--gpu'', ''1'']"
    by (simp add: takes_value_def stoi_accepts_def stoi_examples)
  have p0: "map_sum id (\<lambda>(parsed, config, out1). gpu_id config)
        (parse_arguments ''instant-replay''
           [''-i'', ''rtsp://camera:554/stream'', ''--gpu'', ''0''] default_config) = Inr 0"
    by (simp add: parse_arguments_def stoi_examples default_config_def)
  have p1: "map_sum id (\<lambda>(parsed, config, out1). gpu_id config)
        (parse_arguments ''instant-replay''
           [''-i'', ''rtsp://camera:554/stream'', ''--gpu'', ''1''] default_config) = Inr 1"
    by (simp add: parse_arguments_def stoi_examples default_config_def)
  have m: "main example_env ''instant-replay''
        [''-i'', ''rtsp://camera:554/stream'', ''--gpu'', ''0''] [Bus GST_MESSAGE_EOS]
     = main example_env ''instant-replay''
        [''-i'', ''rtsp://camera:554/stream'', ''--gpu'', ''1''] [Bus GST_MESSAGE_EOS]"
    by (rule gpu_id_not_observable [THEN conjunct2, THEN mp, OF h])
  from h p0 p1 m show ?thesis by (intro conjI) assumption+
qed

text \<open>
  C9, as stated, fails when one of the two values is not a number: with \<^verbatim>\<open>--gpu 0\<close>
  the program runs and exits with code 0 at the end of the stream, with \<^verbatim>\<open>--gpu x\<close>
  \<^verbatim>\<open>std::stoi\<close> throws and the exception, which nothing catches, ends the process.
\<close>

theorem gpu_value_rejected_counterexample:
  "exit_status
     (main example_env ''instant-replay''
        [''-i'', ''rtsp://camera:554/stream'', ''--gpu'', ''0''] [Bus GST_MESSAGE_EOS])
     = Exited 0
   \<and> exit_status
     (main example_env ''instant-replay''
        [''-i'', ''rtsp://camera:554/stream'', ''--gpu'', ''x''] [Bus GST_MESSAGE_EOS])
     = Uncaught invalid_argument"
  by (simp add: run_defs stoi_examples Let_def)

section \<open>Exit code and clean-up\<close>

text \<open>
  While the main loop exists and has not been asked to quit, an event asks it to quit
  exactly when it is an Error, an EndOfStream or a signal.
\<close>

lemma handle_event_main_loop_exists:
  "main_loop_exists (handle_event ev s) = main_loop_exists s"
proof (cases ev)
  case (Bus m)
  then show ?thesis
    by (cases m) (simp_all add: g_main_loop_quit_def print_def gst_element_set_state_def)
next
  case (Signal n)
  then show ?thesis
    by (simp add: signal_handler_def g_main_loop_quit_def print_def Let_def)
next
  case (PadAdded pad ret)
  then show ?thesis
    by (simp add: on_pad_added_def gst_pad_link_def print_def Let_def)
qed

lemma handle_event_loop_quit:
  "main_loop_exists s \<Longrightarrow> \<not> loop_quit s \<Longrightarrow> loop_quit (handle_event ev s) = ends_loop ev"
proof (cases ev)
  case (Bus m)
  then show "main_loop_exists s \<Longrightarrow> \<not> loop_quit s \<Longrightarrow> ?thesis"
    by (cases m) (simp_all add: g_main_loop_quit_def print_def gst_element_set_state_def)
next
  case (Signal n)
  then show "main_loop_exists s \<Longrightarrow> \<not> loop_quit s \<Longrightarrow> ?thesis"
    by (simp add: signal_handler_def g_main_loop_quit_def print_def Let_def)
next
  case (PadAdded pad ret)
  then show "main_loop_exists s \<Longrightarrow> \<not> loop_quit s \<Longrightarrow> ?thesis"
    by (simp add: on_pad_added_def gst_pad_link_def print_def Let_def)
qed

text \<open>
  The loop returns exactly when such an event occurs; it handles nothing after the first
  one, and everything before it.
\<close>

lemma dispatch_events_loop_quit:
  "main_loop_exists s \<Longrightarrow> \<not> loop_quit s \<Longrightarrow>
   loop_quit (dispatch_events evs s) = (\<exists>ev \<in> set evs. ends_loop ev)"
proof (induction evs arbitrary: s)
  case Nil
  then show ?case by simp
next
  case (Cons ev evs)
  show ?case
  proof (cases "ends_loop ev")
    case True
    then show ?thesis using Cons.prems by (simp add: Let_def handle_event_loop_quit)
  next
    case False
    with Cons.prems have nq: "\<not> loop_quit (handle_event ev s)"
      by (simp add: handle_event_loop_quit)
    have ex: "main_loop_exists (handle_event ev s)"
      using Cons.prems by (simp add: handle_event_main_loop_exists)
    from Cons.IH [OF ex nq] nq False show ?thesis by (simp add: Let_def)
  qed
qed

lemma dispatch_events_stops:
  "main_loop_exists s \<Longrightarrow> \<not> loop_quit s \<Longrightarrow> ends_loop ev \<Longrightarrow>
   dispatch_events (evs @ ev # evs') s = dispatch_events (evs @ [ev]) s"
proof (induction evs arbitrary: s)
  case Nil
  then show ?case by (simp add: Let_def handle_event_loop_quit)
next
  case (Cons x evs)
  show ?case
  proof (cases "loop_quit (handle_event x s)")
    case True
    then show ?thesis by (simp add: Let_def)
  next
    case False
    have ex: "main_loop_exists (handle_event x s)"
      using Cons.prems by (simp add: handle_event_main_loop_exists)
    from Cons.IH [OF ex False Cons.prems(3)] False show ?thesis by (simp add: Let_def)
  qed
qed

lemma dispatch_events_append_one:
  "main_loop_exists s \<Longrightarrow> \<not> loop_quit s \<Longrightarrow> \<not> (\<exists>x \<in> set evs. ends_loop x) \<Longrightarrow>
   dispatch_events (evs @ [ev]) s = handle_event ev (dispatch_events evs s)"
proof (induction evs arbitrary: s)
  case Nil
  then show ?case by (simp add: Let_def)
next
  case (Cons x evs)
  from Cons.prems have nx: "\<not> ends_loop x" and rest: "\<not> (\<exists>x \<in> set evs. ends_loop x)"
    by simp_all
  from Cons.prems nx have nq: "\<not> loop_quit (handle_event x s)"
    by (simp add: handle_event_loop_quit)
  have ex: "main_loop_exists (handle_event x s)"
    using Cons.prems by (simp add: handle_event_main_loop_exists)
  from Cons.IH [OF ex nq rest] nq show ?case by (simp add: Let_def)
qed

lemma loop_entry_ready: "main_loop_exists (loop_entry st)" "\<not> loop_quit (loop_entry st)"
  by (simp_all add: loop_entry_def)

text \<open>
  The objects alive when the loop starts: the pipeline with its five elements, and the
  server. Releasing the pipeline and the server releases them all.
\<close>

lemma create_input_pipeline_heap:
  "fst (create_input_pipeline e config hw_type) = Some p \<Longrightarrow>
   fst (snd (create_input_pipeline e config hw_type))
     = [(''input-pipeline'', None), (''source'', Some ''input-pipeline''),
        (''depay'', Some ''input-pipeline''), (''parse'', Some ''input-pipeline''),
        (''ring-buffer'', Some ''input-pipeline''), (''output'', Some ''input-pipeline'')]"
  by (auto simp: create_input_pipeline_def gst_element_factory_make_def gst_object_new_def
      gst_bin_add_many_def Let_def split: if_splits)

lemma main_after_parse_live:
  "main_after_parse e config out1 = Inr st \<Longrightarrow>
   st_live st
     = [(''input-pipeline'', None), (''source'', Some ''input-pipeline''),
        (''depay'', Some ''input-pipeline''), (''parse'', Some ''input-pipeline''),
        (''ring-buffer'', Some ''input-pipeline''), (''output'', Some ''input-pipeline''),
        (''rtsp-server'', None)]"
proof -
  assume a: "main_after_parse e config out1 = Inr st"
  obtain p h o4 where c: "create_input_pipeline e config (main_hw_type config (features e)) = (p, h, o4)"
    by (cases "create_input_pipeline e config (main_hw_type config (features e))") auto
  from a c obtain q where q: "p = Some q"
    by (cases p) (auto simp: main_after_parse_def Let_def split: prod.splits if_splits)
  from create_input_pipeline_heap [of e config "main_hw_type config (features e)" q] c q
  have h: "h = [(''input-pipeline'', None), (''source'', Some ''input-pipeline''),
        (''depay'', Some ''input-pipeline''), (''parse'', Some ''input-pipeline''),
        (''ring-buffer'', Some ''input-pipeline''), (''output'', Some ''input-pipeline'')]"
    by simp
  from a c q have "st_live st = gst_object_new ''rtsp-server'' h"
    by (auto simp: main_after_parse_def Let_def split: prod.splits if_splits option.splits)
  with h show ?thesis by (simp add: gst_object_new_def)
qed

lemma main_startup_live:
  "main_startup e argv0 args = Inr st \<Longrightarrow>
   gst_object_unref ''rtsp-server'' (gst_object_unref ''input-pipeline'' (st_live st)) = []"
proof -
  assume a: "main_startup e argv0 args = Inr st"
  then obtain config out1 where "main_after_parse e config out1 = Inr st"
    by (auto simp: main_startup_def split: sum.splits prod.splits if_splits)
  from main_after_parse_live [OF this] show ?thesis
    by (simp add: gst_object_unref_def)
qed

text \<open>
  The run from the main loop on: the clean-up path when the loop returns, no exit
  otherwise; and a run that ended before the loop never exits with code 0.
\<close>

lemma main_run_returns:
  assumes "\<exists>ev \<in> set events. ends_loop ev"
  shows "main_run st events =
     \<lparr> exit_status = Exited 0,
       printed = out (dispatch_events events (loop_entry st))
                   @ [Msg_cleaning_up, Msg_shutdown_complete],
       live = gst_object_unref ''rtsp-server''
                (gst_object_unref ''input-pipeline'' (st_live st)),
       built_pipeline = Some (st_pipeline st), built_server = Some (st_server st),
       final_state =
         Some ((dispatch_events events (loop_entry st))
                 \<lparr>requested_state := GST_STATE_NULL,
                  out := out (dispatch_events events (loop_entry st))
                           @ [Msg_cleaning_up, Msg_shutdown_complete]\<rparr>) \<rparr>"
proof -
  have "loop_quit (dispatch_events events (loop_entry st))"
    using assms by (simp add: dispatch_events_loop_quit loop_entry_ready)
  then show ?thesis
    by (simp add: main_run_def g_main_loop_run_def Let_def print_def gst_element_set_state_def)
qed

lemma main_run_waits:
  assumes "\<not> (\<exists>ev \<in> set events. ends_loop ev)"
  shows "exit_status (main_run st events) = Never_returns"
proof -
  have "\<not> loop_quit (dispatch_events events (loop_entry st))"
    using assms by (simp add: dispatch_events_loop_quit loop_entry_ready)
  then show ?thesis
    by (simp add: main_run_def g_main_loop_run_def Let_def)
qed

lemma main_startup_Inl:
  "main_startup e argv0 args = Inl oc \<Longrightarrow> final_state oc = None \<and> exit_status oc \<noteq> Exited 0"
  by (auto simp: main_startup_def main_after_parse_def failed_def Let_def
      split: sum.splits prod.splits if_splits option.splits)


text \<open>A run that started, at an event that ends the loop.\<close>

lemma main_ends:
  assumes st: "main_startup e argv0 args = Inr st" and ev: "ends_loop ev"
  shows "exit_status (main e argv0 args (evs @ ev # evs')) = Exited 0"
    and "live (main e argv0 args (evs @ ev # evs')) = []"
    and "map_option requested_state (final_state (main e argv0 args (evs @ ev # evs')))
           = Some GST_STATE_NULL"
    and "main e argv0 args (evs @ ev # evs') = main e argv0 args (evs @ [ev])"
    and "printed (main e argv0 args (evs @ ev # evs'))
           = out (dispatch_events (evs @ [ev]) (loop_entry st))
               @ [Msg_cleaning_up, Msg_shutdown_complete]"
    and "built_pipeline (main e argv0 args (evs @ ev # evs')) = Some (st_pipeline st)"
    and "built_server (main e argv0 args (evs @ ev # evs')) = Some (st_server st)"
proof -
  have x: "\<exists>x \<in> set (evs @ ev # evs'). ends_loop x" using ev by auto
  have y: "\<exists>x \<in> set (evs @ [ev]). ends_loop x" using ev by auto
  have d: "dispatch_events (evs @ ev # evs') (loop_entry st)
             = dispatch_events (evs @ [ev]) (loop_entry st)"
    by (rule dispatch_events_stops [OF loop_entry_ready ev])
  have m: "main e argv0 args (evs @ ev # evs') = main_run st (evs @ ev # evs')"
    and m1: "main e argv0 args (evs @ [ev]) = main_run st (evs @ [ev])"
    using st by (simp_all add: main_def)
  note r = main_run_returns [OF x, of st] main_run_returns [OF y, of st]
  show "exit_status (main e argv0 args (evs @ ev # evs')) = Exited 0"
    unfolding m r by simp
  show "live (main e argv0 args (evs @ ev # evs')) = []"
    unfolding m r using main_startup_live [OF st] by simp
  show "map_option requested_state (final_state (main e argv0 args (evs @ ev # evs')))
           = Some GST_STATE_NULL"
    unfolding m r by simp
  show "main e argv0 args (evs @ ev # evs') = main e argv0 args (evs @ [ev])"
    unfolding m m1 r d ..
  show "printed (main e argv0 args (evs @ ev # evs'))
           = out (dispatch_events (evs @ [ev]) (loop_entry st))
               @ [Msg_cleaning_up, Msg_shutdown_complete]"
    unfolding m r d by simp
  show "built_pipeline (main e argv0 args (evs @ ev # evs')) = Some (st_pipeline st)"
    unfolding m r by simp
  show "built_server (main e argv0 args (evs @ ev # evs')) = Some (st_server st)"
    unfolding m r by simp
qed

text \<open>
  C10. Once the ingest pipeline and the RTSP server have started successfully, the process
  exits with code 0 regardless of why the main loop terminates, and only when it
  terminates: a fatal Error notification and an EndOfStream notification (and a signal)
  both quit the main loop and run the same clean-up path, which requests the Null state
  for the pipeline, releases the pipeline and the server so that no object is left
  alive, prints the two closing lines after what the handlers printed, handles no later
  event, and returns 0; exit code 1 is produced only for failures before the main loop
  starts.
\<close>

theorem exit_code_after_start:
  "(main_startup e argv0 args = Inr st \<longrightarrow>
      exit_status (main e argv0 args events)
        = (if \<exists>x \<in> set events. ends_loop x then Exited 0 else Never_returns)
      \<and> exit_status (main e argv0 args events) \<noteq> Exited 1
      \<and> exit_status
          (main e argv0 args (evs @ Bus (GST_MESSAGE_ERROR src msg debug_info) # evs'))
          = Exited 0
      \<and> exit_status (main e argv0 args (evs @ Bus GST_MESSAGE_EOS # evs')) = Exited 0
      \<and> (ends_loop ev \<longrightarrow>
            exit_status (main e argv0 args (evs @ ev # evs')) = Exited 0
            \<and> live (main e argv0 args (evs @ ev # evs')) = []
            \<and> map_option requested_state (final_state (main e argv0 args (evs @ ev # evs')))
                = Some GST_STATE_NULL
            \<and> printed (main e argv0 args (evs @ ev # evs'))
                = out (dispatch_events (evs @ [ev]) (loop_entry st))
                    @ [Msg_cleaning_up, Msg_shutdown_complete]
            \<and> built_pipeline (main e argv0 args (evs @ ev # evs')) = Some (st_pipeline st)
            \<and> built_server (main e argv0 args (evs @ ev # evs')) = Some (st_server st)
            \<and> main e argv0 args (evs @ ev # evs') = main e argv0 args (evs @ [ev]))
      \<and> (\<not> (\<exists>x \<in> set evs. ends_loop x) \<longrightarrow>
            printed (main e argv0 args (evs @ Bus (GST_MESSAGE_ERROR src msg debug_info) # evs'))
              = out (dispatch_events evs (loop_entry st))
                  @ [Msg_error src msg debug_info, Msg_cleaning_up, Msg_shutdown_complete]
            \<and> printed (main e argv0 args (evs @ Bus GST_MESSAGE_EOS # evs'))
              = out (dispatch_events evs (loop_entry st))
                  @ [Msg_eos, Msg_cleaning_up, Msg_shutdown_complete]))
   \<and> (exit_status (main e argv0 args events) = Exited 1 \<longrightarrow>
        isl (main_startup e argv0 args)
        \<and> final_state (main e argv0 args events) = None)"
proof (intro conjI impI)
  assume st: "main_startup e argv0 args = Inr st"
  have m: "main e argv0 args events = main_run st events"
    using st by (simp add: main_def)
  show x: "exit_status (main e argv0 args events)
        = (if \<exists>x \<in> set events. ends_loop x then Exited 0 else Never_returns)"
  proof (cases "\<exists>x \<in> set events. ends_loop x")
    case True
    then show ?thesis unfolding m main_run_returns [OF True] by simp
  next
    case False
    then show ?thesis unfolding m using main_run_waits [OF False, of st] by simp
  qed
  show "exit_status (main e argv0 args events) \<noteq> Exited 1"
    unfolding x by simp
  show "exit_status
          (main e argv0 args (evs @ Bus (GST_MESSAGE_ERROR src msg debug_info) # evs'))
          = Exited 0"
    by (rule main_ends(1) [OF st]) simp
  show "exit_status (main e argv0 args (evs @ Bus GST_MESSAGE_EOS # evs')) = Exited 0"
    by (rule main_ends(1) [OF st]) simp
next
  assume st: "main_startup e argv0 args = Inr st" and ev: "ends_loop ev"
  show "exit_status (main e argv0 args (evs @ ev # evs')) = Exited 0"
    by (rule main_ends(1) [OF st ev])
  show "live (main e argv0 args (evs @ ev # evs')) = []"
    by (rule main_ends(2) [OF st ev])
  show "map_option requested_state (final_state (main e argv0 args (evs @ ev # evs')))
                = Some GST_STATE_NULL"
    by (rule main_ends(3) [OF st ev])
  show "printed (main e argv0 args (evs @ ev # evs'))
                = out (dispatch_events (evs @ [ev]) (loop_entry st))
                    @ [Msg_cleaning_up, Msg_shutdown_complete]"
    by (rule main_ends(5) [OF st ev])
  show "built_pipeline (main e argv0 args (evs @ ev # evs')) = Some (st_pipeline st)"
    by (rule main_ends(6) [OF st ev])
  show "built_server (main e argv0 args (evs @ ev # evs')) = Some (st_server st)"
    by (rule main_ends(7) [OF st ev])
  show "main e argv0 args (evs @ ev # evs') = main e argv0 args (evs @ [ev])"
    by (rule main_ends(4) [OF st ev])
next
  assume st: "main_startup e argv0 args = Inr st"
    and n: "\<not> (\<exists>x \<in> set evs. ends_loop x)"
  have a: "dispatch_events (evs @ [ev]) (loop_entry st)
             = handle_event ev (dispatch_events evs (loop_entry st))" for ev
    using n by (simp add: dispatch_events_append_one loop_entry_ready)
  show "printed (main e argv0 args (evs @ Bus (GST_MESSAGE_ERROR src msg debug_info) # evs'))
              = out (dispatch_events evs (loop_entry st))
                  @ [Msg_error src msg debug_info, Msg_cleaning_up, Msg_shutdown_complete]"
    unfolding main_ends(5) [OF st, of "Bus (GST_MESSAGE_ERROR src msg debug_info)", simplified] a
    by (simp add: g_main_loop_quit_def print_def)
  show "printed (main e argv0 args (evs @ Bus GST_MESSAGE_EOS # evs'))
              = out (dispatch_events evs (loop_entry st))
                  @ [Msg_eos, Msg_cleaning_up, Msg_shutdown_complete]"
    unfolding main_ends(5) [OF st, of "Bus GST_MESSAGE_EOS", simplified] a
    by (simp add: g_main_loop_quit_def print_def)
next
  assume x: "exit_status (main e argv0 args events) = Exited 1"
  show "isl (main_startup e argv0 args)"
  proof (cases "main_startup e argv0 args")
    case (Inl oc)
    then show ?thesis by simp
  next
    case (Inr st)
    have "exit_status (main_run st events) \<noteq> Exited 1"
      using main_run_returns [of events st] main_run_waits [of events st]
      by (cases "\<exists>ev \<in> set events. ends_loop ev") simp_all
    with x Inr show ?thesis by (simp add: main_def)
  qed
  then obtain oc where "main_startup e argv0 args = Inl oc"
    by (cases "main_startup e argv0 args") simp_all
  then show "final_state (main e argv0 args events) = None"
    using main_startup_Inl [of e argv0 args oc] by (simp add: main_def)
qed


text \<open>
  The theorem at a run that starts and is ended by an Error, at the same run ended by an
  EndOfStream, at the same run with neither, and at a run in which the server cannot be
  attached.
\<close>

theorem exit_code_after_start_witness:
  "\<not> isl (main_startup example_env ''instant-replay'' [''-i'', ''rtsp://camera:554/stream''])
   \<and> exit_status
       (main example_env ''instant-replay'' [''-i'', ''rtsp://camera:554/stream'']
          [Bus (GST_MESSAGE_BUFFERING 60),
           Bus (GST_MESSAGE_ERROR ''source'' ''Could not read from resource.'' None)])
     = Exited 0
   \<and> live
       (main example_env ''instant-replay'' [''-i'', ''rtsp://camera:554/stream'']
          [Bus (GST_MESSAGE_BUFFERING 60),
           Bus (GST_MESSAGE_ERROR ''source'' ''Could not read from resource.'' None)])
     = []
   \<and> map_option requested_state
       (final_state
          (main example_env ''instant-replay'' [''-i'', ''rtsp://camera:554/stream'']
             [Bus (GST_MESSAGE_BUFFERING 60),
              Bus (GST_MESSAGE_ERROR ''source'' ''Could not read from resource.'' None)]))
     = Some GST_STATE_NULL
   \<and> exit_status
       (main example_env ''instant-replay'' [''-i'', ''rtsp://camera:554/stream'']
          [Bus (GST_MESSAGE_BUFFERING 60), Bus GST_MESSAGE_EOS])
     = Exited 0
   \<and> live
       (main example_env ''instant-replay'' [''-i'', ''rtsp://camera:554/stream'']
          [Bus (GST_MESSAGE_BUFFERING 60), Bus GST_MESSAGE_EOS])
     = []
   \<and> map_option requested_state
       (final_state
          (main example_env ''instant-replay'' [''-i'', ''rtsp://camera:554/stream'']
             [Bus (GST_MESSAGE_BUFFERING 60), Bus GST_MESSAGE_EOS]))
     = Some GST_STATE_NULL
   \<and> exit_status
       (main example_env ''instant-replay'' [''-i'', ''rtsp://camera:554/stream'']
          [Bus (GST_MESSAGE_BUFFERING 60)])
     = Never_returns
   \<and> exit_status
       (main (example_env\<lparr>attach_id := 0\<rparr>) ''instant-replay''
          [''-i'', ''rtsp://camera:554/stream''] [Bus GST_MESSAGE_EOS])
     = Exited 1
   \<and> isl (main_startup (example_env\<lparr>attach_id := 0\<rparr>) ''instant-replay''
          [''-i'', ''rtsp://camera:554/stream''])"
proof -
  let ?args = "[''-i'', ''rtsp://camera:554/stream'']"
  let ?err = "Bus (GST_MESSAGE_ERROR ''source'' ''Could not read from resource.'' None)"
  have n: "\<not> isl (main_startup example_env ''instant-replay'' ?args)"
    by (simp add: run_defs Let_def)
  then obtain st where st: "main_startup example_env ''instant-replay'' ?args = Inr st"
    by (cases "main_startup example_env ''instant-replay'' ?args") simp_all
  have x: "exit_status
       (main (example_env\<lparr>attach_id := 0\<rparr>) ''instant-replay'' ?args [Bus GST_MESSAGE_EOS])
     = Exited 1"
    by (simp add: run_defs Let_def)
  have e1: "ends_loop ?err" and e2: "ends_loop (Bus GST_MESSAGE_EOS)" by simp_all
  note t1 = exit_code_after_start [where e = example_env and ?argv0.0 = "''instant-replay''"
      and args = ?args and st = st and evs = "[Bus (GST_MESSAGE_BUFFERING 60)]"
      and ev = ?err and evs' = "[]" and events = "[Bus (GST_MESSAGE_BUFFERING 60)]",
      THEN conjunct1, THEN mp, OF st]
  note t2 = exit_code_after_start [where e = example_env and ?argv0.0 = "''instant-replay''"
      and args = ?args and st = st and evs = "[Bus (GST_MESSAGE_BUFFERING 60)]"
      and ev = "Bus GST_MESSAGE_EOS" and evs' = "[]",
      THEN conjunct1, THEN mp, OF st]
  note a1 = t1 [THEN conjunct2, THEN conjunct2, THEN conjunct2, THEN conjunct2,
      THEN conjunct1, THEN mp, OF e1]
  note a2 = t2 [THEN conjunct2, THEN conjunct2, THEN conjunct2, THEN conjunct2,
      THEN conjunct1, THEN mp, OF e2]
  have w: "exit_status (main example_env ''instant-replay'' ?args
          [Bus (GST_MESSAGE_BUFFERING 60)]) = Never_returns"
    using t1 [THEN conjunct1] by simp
  have b: "isl (main_startup (example_env\<lparr>attach_id := 0\<rparr>) ''instant-replay'' ?args)"
    by (rule exit_code_after_start [where e = "example_env\<lparr>attach_id := 0\<rparr>"
      and events = "[Bus GST_MESSAGE_EOS]", THEN conjunct2, THEN mp, OF x, THEN conjunct1])
  from n a1 [THEN conjunct1] a1 [THEN conjunct2, THEN conjunct1]
    a1 [THEN conjunct2, THEN conjunct2, THEN conjunct1]
    a2 [THEN conjunct1] a2 [THEN conjunct2, THEN conjunct1]
    a2 [THEN conjunct2, THEN conjunct2, THEN conjunct1] w x b
  show ?thesis by simp
qed

section \<open>Replay server: properties\<close>

text \<open>
  For the NVIDIA, the VAAPI and the software backend the playback graph holds the decoder
  and the encoder selected for the backend.
\<close>

lemma playback_graph_other_backends:
  "hw_type \<noteq> HW_ACCEL_MSDK \<Longrightarrow>
   playback_graph_words (e\<lparr>server_new_ok := True\<rparr>) config hw_type = Some ws \<Longrightarrow>
   get_decoder_element hw_type \<in> set ws \<and> get_encoder_element hw_type \<in> set ws"
  by (cases hw_type)
     (auto simp: playback_graph_words_def create_rtsp_server_def launch_description_def
        launch_words_def)

text \<open>
  C2. For every detected backend the playback graph should re-encode with the codec pair
  selected for that backend. At the integrated MSDK backend it does not: the selected
  pair is \<^verbatim>\<open>msdkh264dec\<close> and \<^verbatim>\<open>msdkh264enc\<close>, and the launch description the
  factory is given is the software one, with \<^verbatim>\<open>avdec_h264\<close> and \<^verbatim>\<open>x264enc\<close>;
  so it is in a run of the program on a machine whose registry holds the MSDK codecs.
\<close>

theorem msdk_playback_graph_is_software:
  "detect_hardware_accel {''msdkh264dec'', ''msdkh264enc''} = HW_ACCEL_MSDK
   \<and> codec_pair HW_ACCEL_MSDK = (''msdkh264dec'', ''msdkh264enc'')
   \<and> playback_graph_words (e\<lparr>server_new_ok := True\<rparr>) config HW_ACCEL_MSDK
       = Some [''('', ''filesrc'', ''location=/tmp/replay-buffer.h264'', ''!'',
               ''h264parse'', ''!'', ''avdec_h264'', ''!'', ''x264enc'',
               ''bitrate=4000'', ''tune=zerolatency'', ''!'', ''h264parse'', ''!'',
               ''rtph264pay'', ''name=pay0'', ''pt=96'', ''config-interval=1'', '')'']
   \<and> map_option launch
        (built_server
           (main (example_env\<lparr>features := {''msdkh264dec'', ''msdkh264enc''}\<rparr>)
              ''instant-replay'' [''-i'', ''rtsp://camera:554/stream''] [Bus GST_MESSAGE_EOS]))
       = Some (launch_description HW_ACCEL_NONE)"
  by (simp add: detect_hardware_accel_def gst_registry_lookup_feature_def codec_pair_def
      playback_graph_words_def create_rtsp_server_def launch_description_def launch_words_def
      run_defs Let_def)

end
